theory Spec2Isabelle
  imports Complex_Main "HOL-Library.Multiset"
begin

section \<open>Python exceptions\<close>

text \<open>
  Every raise of the modelled code is a value: an instance of a subclass of
  \<open>Exception\<close>, which is what the handlers of the code catch. The string is what
  \<open>str(e)\<close> yields.
  \<open>ProviderError\<close> stands for any exception class of an external collaborator that is
  not one of the named built-in classes.
\<close>

datatype py_exception =
    IndexError string
  | KeyError string
  | AttributeError string
  | TypeError string
  | ValueError string
  | JSONDecodeError string
  | ProviderError string

fun exc_str :: "py_exception \<Rightarrow> string" where
  "exc_str (IndexError m) = m"
| "exc_str (KeyError m) = m"
| "exc_str (AttributeError m) = m"
| "exc_str (TypeError m) = m"
| "exc_str (ValueError m) = m"
| "exc_str (JSONDecodeError m) = m"
| "exc_str (ProviderError m) = m"


section \<open>Python string helpers\<close>

text \<open>\<open>str(n)\<close> and \<open>f"{n}"\<close> for a non-negative integer \<open>n\<close>, in decimal.\<close>

definition digit :: "nat \<Rightarrow> char" where
  "digit n = ''0123456789'' ! n"

function str_nat :: "nat \<Rightarrow> string" where
  "str_nat n = (if n < 10 then [digit n] else str_nat (n div 10) @ [digit (n mod 10)])"
  by pat_completeness auto
termination
  by (relation "measure id") auto

declare str_nat.simps [simp del]

text \<open>\<open>str(i)\<close> for an integer.\<close>

definition str_int :: "int \<Rightarrow> string" where
  "str_int i = (if i < 0 then ''-'' @ str_nat (nat (- i)) else str_nat (nat i))"

text \<open>The line feed and the single quote, which a string literal cannot hold at its ends.\<close>

definition nl :: string where
  "nl = [CHR 0x0A]"

definition quote :: string where
  "quote = [CHR 0x27]"

text \<open>\<open>sep.join(parts)\<close>.\<close>

fun py_join :: "string \<Rightarrow> string list \<Rightarrow> string" where
  "py_join sep [] = []"
| "py_join sep [x] = x"
| "py_join sep (x # y # ys) = x @ sep @ py_join sep (y # ys)"


section \<open>Retrieval service (server.py, lines 49-53 and 166-181)\<close>

text \<open>
  The embedding encoder and the vector index are external libraries. The encoder is a
  function from the query text to a vector (or an exception); a built index is its
  \<open>search\<close> method, from a query vector and a count to row 0 of the two arrays
  \<open>scores\<close> and \<open>indices\<close> (or an exception).
\<close>

type_synonym vec = "real list"
type_synonym encoder = "string \<Rightarrow> py_exception + vec"
type_synonym faiss = "vec \<Rightarrow> int \<Rightarrow> py_exception + (real list \<times> int list)"

text \<open>The module globals \<open>faiss_index\<close>, \<open>facility_texts\<close>, \<open>facility_ids\<close>.\<close>

record retrieval =
  faiss_index :: "faiss option"
  facility_texts :: "string list"
  facility_ids :: "string list"

text \<open>The state at import time (lines 49-51).\<close>

definition initial_retrieval :: retrieval where
  "initial_retrieval = \<lparr>faiss_index = None, facility_texts = [], facility_ids = []\<rparr>"

text \<open>One entry of the result list: the dict with keys facility_id, text, score.\<close>

record hit =
  hit_facility_id :: string
  hit_text :: string
  hit_score :: real

text \<open>
  The loop of lines 173-180 over \<open>enumerate(indices[0])\<close>. The range test on \<open>idx\<close> is
  evaluated first; \<open>scores[0][i]\<close> and \<open>facility_ids[idx]\<close> raise IndexError out of range.
\<close>

fun collect_hits :: "retrieval \<Rightarrow> real list \<Rightarrow> (nat \<times> int) list \<Rightarrow> hit list \<Rightarrow> py_exception + hit list" where
  "collect_hits st scores [] results = Inr results"
| "collect_hits st scores ((i, idx) # rest) results =
     (if 0 \<le> idx \<and> idx < int (length (facility_texts st)) then
        (if i < length scores then
           (if scores ! i > 0 then
              (if nat idx < length (facility_ids st) then
                 collect_hits st scores rest
                   (results @ [\<lparr>hit_facility_id = facility_ids st ! nat idx,
                                 hit_text = facility_texts st ! nat idx,
                                 hit_score = scores ! i\<rparr>])
               else Inl (IndexError ''list index out of range''))
            else collect_hits st scores rest results)
         else Inl (IndexError ''index out of bounds''))
      else collect_hits st scores rest results)"

definition search_similar :: "encoder \<Rightarrow> retrieval \<Rightarrow> string \<Rightarrow> int \<Rightarrow> py_exception + hit list" where
  "search_similar encode_query st query top_k =
     (case faiss_index st of
        None \<Rightarrow> Inr []
      | Some index \<Rightarrow>
          (case encode_query query of
             Inl e \<Rightarrow> Inl e
           | Inr query_vec \<Rightarrow>
               (case index query_vec top_k of
                  Inl e \<Rightarrow> Inl e
                | Inr (scores, indices) \<Rightarrow>
                    collect_hits st scores (enumerate 0 indices) [])))"

text \<open>
  What the retrieval service takes for granted of its collaborators at one call: the
  encoder returns a vector, the index search returns at most \<open>top_k\<close> rows, the two arrays
  have the same length, and the scores come in descending order (the exact inner-product
  index returns its neighbours best first). An unbuilt index asks for nothing.
\<close>

definition search_contract :: "encoder \<Rightarrow> retrieval \<Rightarrow> string \<Rightarrow> int \<Rightarrow> bool" where
  "search_contract encode_query st query top_k =
     (case faiss_index st of
        None \<Rightarrow> True
      | Some index \<Rightarrow>
          (case encode_query query of
             Inl e \<Rightarrow> False
           | Inr query_vec \<Rightarrow>
               (case index query_vec top_k of
                  Inl e \<Rightarrow> False
                | Inr (scores, indices) \<Rightarrow>
                    length indices \<le> nat top_k \<and> length scores = length indices \<and>
                    sorted_wrt (\<lambda>a b. b \<le> a) scores)))"

section \<open>Region-level desert analysis (server.py, lines 427-476)\<close>

text \<open>
  A facility document, with the keys the modelled code reads. The five keys that the
  analysis reads with \<open>fac.get(key, default)\<close> may be absent; the others are read with
  \<open>fac[...]\<close> only.
\<close>

record facility =
  fac_facility_id :: string
  fac_name :: string
  fac_region :: string
  fac_district :: string
  fac_type :: string
  fac_beds :: "int option"
  fac_staff_count :: "int option"
  fac_specialties :: "string list option"
  fac_equipment :: "string list option"
  fac_services :: "string list option"
  fac_operational_status :: string
  fac_capabilities_text :: string
  fac_notes :: string

text \<open>\<open>d.get(key, default)\<close> on an optional key.\<close>

definition get_or :: "'a option \<Rightarrow> 'a \<Rightarrow> 'a" where
  "get_or v d = (case v of None \<Rightarrow> d | Some x \<Rightarrow> x)"

text \<open>
  The per-region dict of the first loop (lines 435-440). \<open>specialties\<close> is a Python set.
\<close>

record region_acc =
  region :: string
  facilities :: "string list"
  total_beds :: int
  total_staff :: int
  specialties :: "string set"
  has_surgery :: bool
  has_icu :: bool
  has_ct_mri :: bool
  has_blood_bank :: bool
  desert_score :: int

definition new_region :: "string \<Rightarrow> region_acc" where
  "new_region r = \<lparr>region = r, facilities = [], total_beds = 0, total_staff = 0,
     specialties = {}, has_surgery = False, has_icu = False, has_ct_mri = False,
     has_blood_bank = False, desert_score = 0\<rparr>"

text \<open>Lines 441-454: what one facility adds to the dict of its region.\<close>

definition absorb :: "region_acc \<Rightarrow> facility \<Rightarrow> region_acc" where
  "absorb r fac =
     r\<lparr>facilities := facilities r @ [fac_name fac],
       total_beds := total_beds r + get_or (fac_beds fac) 0,
       total_staff := total_staff r + get_or (fac_staff_count fac) 0,
       specialties := specialties r \<union> set (get_or (fac_specialties fac) []),
       has_surgery := (if ''Surgery'' \<in> set (get_or (fac_services fac) []) then True else has_surgery r),
       has_icu := (if ''ICU'' \<in> set (get_or (fac_services fac) []) then True else has_icu r),
       has_ct_mri := (if list_ex (\<lambda>e. e \<in> set (get_or (fac_equipment fac) [])) [''CT Scanner'', ''MRI'']
                      then True else has_ct_mri r),
       has_blood_bank := (if ''Blood Bank'' \<in> set (get_or (fac_services fac) []) then True else has_blood_bank r)\<rparr>"

text \<open>
  \<open>regions\<close> is an insertion-ordered dict: an association list with distinct keys. A new
  region is appended at the end; the entry of the facility's region is updated in place.
\<close>

definition aggregate_step :: "(string \<times> region_acc) list \<Rightarrow> facility \<Rightarrow> (string \<times> region_acc) list" where
  "aggregate_step regions fac =
     (let r = fac_region fac;
          regions1 = (if map_of regions r = None then regions @ [(r, new_region r)] else regions)
      in map (\<lambda>(k, d). if k = r then (k, absorb d fac) else (k, d)) regions1)"

definition aggregate :: "facility list \<Rightarrow> (string \<times> region_acc) list" where
  "aggregate facs = foldl aggregate_step [] facs"

text \<open>
  Lines 458-467: the local variable \<open>score\<close>, the sum of the seven factors before it is
  clamped.
\<close>

definition raw_score :: "region_acc \<Rightarrow> int" where
  "raw_score data =
     (let score = 0;
          score = (if total_beds data < 100 then score + 30
                   else if total_beds data < 200 then score + 15 else score);
          score = (if total_staff data < 200 then score + 20
                   else if total_staff data < 500 then score + 10 else score);
          score = (if \<not> has_surgery data then score + 20 else score);
          score = (if \<not> has_icu data then score + 15 else score);
          score = (if \<not> has_ct_mri data then score + 10 else score);
          score = (if \<not> has_blood_bank data then score + 5 else score);
          score = (if card (specialties data) < 3 then score + 10 else score)
      in score)"

text \<open>
  One entry of the returned list: the region dict after lines 469-472, where
  \<open>specialties\<close> has become a list and \<open>is_desert\<close> and \<open>severity\<close> have been added.
\<close>

record region_report =
  rep_region :: string
  rep_facilities :: "string list"
  rep_total_beds :: int
  rep_total_staff :: int
  rep_specialties :: "string list"
  rep_has_surgery :: bool
  rep_has_icu :: bool
  rep_has_ct_mri :: bool
  rep_has_blood_bank :: bool
  rep_desert_score :: int
  rep_is_desert :: bool
  rep_severity :: string

text \<open>
  \<open>list(data["specialties"])\<close> enumerates a set in an order Python does not fix: the
  enumeration is the parameter \<open>set_to_list\<close>.
\<close>

definition assess :: "(string set \<Rightarrow> string list) \<Rightarrow> region_acc \<Rightarrow> region_report" where
  "assess set_to_list data =
     (let score = raw_score data in
      \<lparr>rep_region = region data, rep_facilities = facilities data,
       rep_total_beds = total_beds data, rep_total_staff = total_staff data,
       rep_specialties = set_to_list (specialties data),
       rep_has_surgery = has_surgery data, rep_has_icu = has_icu data,
       rep_has_ct_mri = has_ct_mri data, rep_has_blood_bank = has_blood_bank data,
       rep_desert_score = min score 100,
       rep_is_desert = (score \<ge> 40),
       rep_severity = (if score \<ge> 60 then ''Critical'' else if score \<ge> 40 then ''Moderate'' else ''Adequate'')\<rparr>)"

text \<open>
  The endpoint reads at most 5000 documents (\<open>to_list(5000)\<close>). Python's
  \<open>sort(key=..., reverse=True)\<close> is stable, as is \<open>sort_key\<close> on the negated key.
\<close>

definition get_medical_deserts :: "(string set \<Rightarrow> string list) \<Rightarrow> facility list \<Rightarrow> region_report list" where
  "get_medical_deserts set_to_list db_facilities =
     (let regions = aggregate (take 5000 db_facilities);
          deserts = map (\<lambda>(r, data). assess set_to_list data) regions
      in sort_key (\<lambda>x. - rep_desert_score x) deserts)"

section \<open>Building the index (server.py, lines 117-163)\<close>

text \<open>\<open>fac[key]\<close> on a key that may be absent.\<close>

definition subscript :: "string \<Rightarrow> 'a option \<Rightarrow> py_exception + 'a" where
  "subscript k v = (case v of None \<Rightarrow> Inl (KeyError (quote @ k @ quote)) | Some x \<Rightarrow> Inr x)"

text \<open>\<open>', '.join(xs) if xs else 'None'\<close>.\<close>

definition listed :: "string list \<Rightarrow> string" where
  "listed xs = (if xs \<noteq> [] then py_join '', '' xs else ''None'')"

text \<open>Lines 134-145: the passage of one facility.\<close>

definition passage :: "facility \<Rightarrow> py_exception + string" where
  "passage fac =
     (case subscript ''beds'' (fac_beds fac) of Inl e \<Rightarrow> Inl e | Inr n_beds \<Rightarrow>
      case subscript ''staff_count'' (fac_staff_count fac) of Inl e \<Rightarrow> Inl e | Inr n_staff \<Rightarrow>
      case subscript ''specialties'' (fac_specialties fac) of Inl e \<Rightarrow> Inl e | Inr specs \<Rightarrow>
      case subscript ''equipment'' (fac_equipment fac) of Inl e \<Rightarrow> Inl e | Inr equip \<Rightarrow>
      case subscript ''services'' (fac_services fac) of Inl e \<Rightarrow> Inl e | Inr servs \<Rightarrow>
        Inr (''Facility: '' @ fac_name fac @ '' (ID: '' @ fac_facility_id fac @ '')'' @ nl @
             ''Region: '' @ fac_region fac @ '', District: '' @ fac_district fac @ nl @
             ''Type: '' @ fac_type fac @ nl @
             ''Beds: '' @ str_int n_beds @ '', Staff: '' @ str_int n_staff @ nl @
             ''Specialties: '' @ listed specs @ nl @
             ''Equipment: '' @ listed equip @ nl @
             ''Services: '' @ listed servs @ nl @
             ''Status: '' @ fac_operational_status fac @ nl @
             ''Capabilities: '' @ fac_capabilities_text fac @ nl @
             ''Notes: '' @ fac_notes fac))"

text \<open>Lines 131-147: the loop that fills \<open>texts\<close> and \<open>ids\<close>.\<close>

fun build_chunks :: "facility list \<Rightarrow> string list \<Rightarrow> string list \<Rightarrow> py_exception + (string list \<times> string list)" where
  "build_chunks [] texts ids = Inr (texts, ids)"
| "build_chunks (fac # facs) texts ids =
     (case passage fac of
        Inl e \<Rightarrow> Inl e
      | Inr t \<Rightarrow> build_chunks facs (texts @ [t]) (ids @ [fac_facility_id fac]))"

text \<open>
  \<open>build_faiss_index\<close>. The facilities \<open>loaded\<close> come from the data file; the collection is
  filled from them when it is empty. Encoding the texts and building the index over
  the vectors (lines 152-158) is the work of the two libraries: a function from the
  texts to the built index, or an exception. The three globals are assigned last.
\<close>

definition build_faiss_index :: "(string list \<Rightarrow> py_exception + faiss) \<Rightarrow> facility list
    \<Rightarrow> facility list \<times> retrieval \<Rightarrow> py_exception option \<times> facility list \<times> retrieval" where
  "build_faiss_index make_index loaded st =
     (let collection = (if length (fst st) = 0 then loaded else fst st) in
      case build_chunks loaded [] [] of
        Inl e \<Rightarrow> (Some e, collection, snd st)
      | Inr (texts, ids) \<Rightarrow>
          (case make_index texts of
             Inl e \<Rightarrow> (Some e, collection, snd st)
           | Inr index \<Rightarrow>
               (None, collection,
                \<lparr>faiss_index = Some index, facility_texts = texts, facility_ids = ids\<rparr>)))"


section \<open>Chat endpoint with multi-turn memory (server.py, lines 188-206 and 513-705)\<close>

subsection \<open>Documents, requests and responses\<close>

text \<open>The \<open>data_used\<close> entry of a reasoning step is a string, or in step 3 a list of ids.\<close>

datatype data_used = DataStr string | DataList "string list"

record reasoning_step =
  rs_step :: nat
  rs_action :: string
  rs_detail :: string
  rs_data_used :: data_used

record citation =
  source_id :: string
  text_excerpt :: string
  relevance_score :: real

text \<open>
  A document of the collection \<open>chat_history\<close> (lines 668-676). \<open>created_at\<close> is a point in
  time, counted in the milliseconds the store keeps.
\<close>

record chat_doc =
  doc_session_id :: string
  doc_message :: string
  doc_response :: string
  doc_citations :: "citation list"
  doc_reasoning_steps :: "reasoning_step list"
  doc_mlflow_run_id :: "string option"
  doc_created_at :: int

text \<open>\<open>ChatRequest\<close> and \<open>ChatResponse\<close> (lines 65-74).\<close>

record chat_request =
  req_message :: string
  req_session_id :: "string option"

record chat_response =
  resp_response :: string
  resp_citations :: "citation list"
  resp_reasoning_steps :: "reasoning_step list"
  resp_session_id :: string
  resp_mlflow_run_id :: "string option"

subsection \<open>The experiment logger\<close>

text \<open>
  Every call the endpoint makes to the tracking library, and the file write of
  \<open>log_agent_step\<close>. The library is a collaborator with a state of its own: a call returns
  a string (the run id for \<open>StartRun\<close>) or raises, and moves the state.
\<close>

datatype mlflow_call =
    StartRun string "(string \<times> string) list"
  | LogParam string string
  | LogParams "(string \<times> string) list"
  | LogMetric string real
  | LogMetrics "(string \<times> real) list"
  | WriteText string string
  | LogArtifact string
  | EndRun

type_synonym 'm mlflow = "mlflow_call \<Rightarrow> 'm \<Rightarrow> (py_exception + string) \<times> 'm"

text \<open>
  The collaborators that stay the same from one request to the next. \<open>mongo_sort\<close> is
  the store's \<open>sort("created_at", direction)\<close>; \<open>fmt_0f\<close> is the float format \<open>{x:.0f}\<close>;
  \<open>py_str_list\<close> is \<open>str\<close> of a list of strings; \<open>tracking_dir\<close> is \<open>MLFLOW_TRACKING_DIR\<close>.
\<close>

record 'm world =
  query_encoder :: encoder
  mlflow :: "'m mlflow"
  mongo_sort :: "int \<Rightarrow> chat_doc list \<Rightarrow> chat_doc list"
  fmt_0f :: "real \<Rightarrow> string"
  py_str_list :: "string list \<Rightarrow> string"
  tracking_dir :: string

text \<open>
  What one request reads from its surroundings: the two \<open>uuid.uuid4().hex\<close> values
  (lines 516 and 639), the four latencies in milliseconds computed from \<open>time.time()\<close>
  (lines 562, 575, 646, 680), the clock at the insert (line 675), and the generation
  client: from the session label, the system message and the user text to the answer
  text, or an exception.
\<close>

record call_env =
  uuid_session :: string
  uuid_llm :: string
  memory_ms :: real
  search_ms :: real
  llm_ms :: real
  total_ms :: real
  now :: int
  llm_send :: "string \<Rightarrow> string \<Rightarrow> string \<Rightarrow> py_exception + string"

text \<open>The state of the server: the retrieval globals, the two collections, the logger.\<close>

record 'm server =
  retrieval_state :: retrieval
  db_facilities :: "facility list"
  db_chat_history :: "chat_doc list"
  mlflow_state :: 'm

text \<open>
  A \<open>try\<close> block of logger calls: they run in order, the first that raises ends the
  block. The flag tells whether all of them returned.
\<close>

fun attempt :: "'m mlflow \<Rightarrow> mlflow_call list \<Rightarrow> 'm \<Rightarrow> bool \<times> 'm" where
  "attempt ml [] m = (True, m)"
| "attempt ml (c # cs) m =
     (case ml c m of
        (Inl e, m') \<Rightarrow> (False, m')
      | (Inr r, m') \<Rightarrow> attempt ml cs m')"

text \<open>\<open>try: ... except Exception: pass\<close>.\<close>

definition best_effort :: "'m mlflow \<Rightarrow> mlflow_call list \<Rightarrow> 'm \<Rightarrow> 'm" where
  "best_effort ml calls m = snd (attempt ml calls m)"

text \<open>The calls of \<open>log_agent_step\<close> (lines 194-206).\<close>

definition log_agent_step :: "'m world \<Rightarrow> nat \<Rightarrow> string \<Rightarrow> string \<Rightarrow> string \<Rightarrow> real \<Rightarrow> mlflow_call list" where
  "log_agent_step w step_num action detail data latency_ms =
     (let step_text = ''Step '' @ str_nat step_num @ '': '' @ action @ nl @
                      ''Detail: '' @ detail @ nl @
                      ''Data: '' @ data @ nl @
                      ''Latency: '' @ fmt_0f w latency_ms @ ''ms'';
          step_path = tracking_dir w @ ''/step_'' @ str_nat step_num @ ''.txt''
      in [LogParams [(''step_'' @ str_nat step_num @ ''_action'', take 250 action)],
          LogMetrics [(''step_'' @ str_nat step_num @ ''_latency_ms'', latency_ms)],
          WriteText step_path step_text,
          LogArtifact step_path])"

text \<open>
  Lines 522-532: the run is started and two parameters are logged, all in one \<open>try\<close>.
  \<open>run_id\<close> is set as soon as the run has started, also when a later call raises.
\<close>

definition start_tracking :: "'m world \<Rightarrow> string \<Rightarrow> string \<Rightarrow> 'm \<Rightarrow> string option \<times> 'm" where
  "start_tracking w session_id message m =
     (case mlflow w (StartRun (''chat_'' @ take 12 session_id)
                       [(''type'', ''rag_chat''), (''session_id'', session_id)]) m of
        (Inl e, m') \<Rightarrow> (None, m')
      | (Inr run_id, m') \<Rightarrow>
          (Some run_id,
           best_effort (mlflow w)
             [LogParam ''user_query'' (take 250 message), LogParam ''session_id'' session_id] m'))"

text \<open>Lines 679-689: the closing metrics, with a second \<open>end_run\<close> when the first block raises.\<close>

definition end_tracking :: "'m world \<Rightarrow> real \<Rightarrow> nat \<Rightarrow> nat \<Rightarrow> 'm \<Rightarrow> 'm" where
  "end_tracking w total_latency n_citations n_steps m =
     (case attempt (mlflow w)
             [LogMetric ''total_latency_ms'' total_latency,
              LogMetric ''citation_count'' (real n_citations),
              LogMetric ''reasoning_steps_count'' (real n_steps),
              EndRun] m of
        (True, m') \<Rightarrow> m'
      | (False, m') \<Rightarrow> best_effort (mlflow w) [EndRun] m')"

subsection \<open>The steps of the endpoint\<close>

text \<open>Line 516: \<open>req.session_id or f"chat_{uuid.uuid4().hex[:8]}"\<close>; the empty string is falsy.\<close>

definition effective_session_id :: "call_env \<Rightarrow> chat_request \<Rightarrow> string" where
  "effective_session_id env req =
     (case req_session_id req of
        None \<Rightarrow> ''chat_'' @ take 8 (uuid_session env)
      | Some sid \<Rightarrow> (if sid \<noteq> [] then sid else ''chat_'' @ take 8 (uuid_session env)))"

text \<open>
  Lines 547-550: the turns of the session, newest first, at most five of them, then
  reversed.
\<close>

definition load_history :: "'m world \<Rightarrow> 'm server \<Rightarrow> string \<Rightarrow> chat_doc list" where
  "load_history w st session_id =
     rev (take 5 (mongo_sort w (- 1)
       (filter (\<lambda>d. doc_session_id d = session_id) (db_chat_history st))))"

text \<open>Line 555: the text one earlier turn adds to \<open>conversation_context\<close>.\<close>

definition turn_text :: "chat_doc \<Rightarrow> string" where
  "turn_text hdoc = ''User: '' @ doc_message hdoc @ nl @
                    ''Assistant: '' @ take 300 (doc_response hdoc) @ ''...'' @ nl @ nl"

text \<open>Lines 553-570: the reasoning step of the memory retrieval.\<close>

definition memory_step :: "chat_doc list \<Rightarrow> reasoning_step" where
  "memory_step history_docs =
     (if history_docs \<noteq> [] then
        \<lparr>rs_step = 2, rs_action = ''Memory Retrieval'',
         rs_detail = ''Loaded '' @ str_nat (length history_docs) @
                     '' previous conversation turns for context'',
         rs_data_used = DataStr (str_nat (length history_docs) @ '' chat history messages'')\<rparr>
      else
        \<lparr>rs_step = 2, rs_action = ''Memory Retrieval'',
         rs_detail = ''No previous conversation history (new session)'',
         rs_data_used = DataStr ''None''\<rparr>)"

text \<open>Lines 590-599: the context parts and the citations, one of each per hit.\<close>

definition context_part :: "nat \<times> hit \<Rightarrow> string" where
  "context_part p = ''[Source '' @ str_nat (fst p + 1) @ '': '' @ hit_facility_id (snd p) @ '']'' @
                    nl @ hit_text (snd p)"

definition cite :: "hit \<Rightarrow> citation" where
  "cite result = \<lparr>source_id = hit_facility_id result,
                  text_excerpt = take 200 (hit_text result) @ ''...'',
                  relevance_score = hit_score result\<rparr>"

text \<open>Lines 612-632: the system prompt.\<close>

definition memory_section :: "string \<Rightarrow> string" where
  "memory_section conversation_context =
     (if conversation_context \<noteq> [] then
        nl @ nl @ ''PREVIOUS CONVERSATION:'' @ nl @ conversation_context @ nl @
        ''Continue the conversation naturally, referring to earlier points when relevant.''
      else [])"

definition system_prompt :: "string \<Rightarrow> string \<Rightarrow> string \<Rightarrow> string" where
  \<open>system_prompt context facility_summary memory =
     ''You are the Virtue Foundation's Intelligent Document Parsing (IDP) Agent, specialized in analyzing healthcare facility data in Ghana.\<newline>\<newline>RETRIEVED FACILITY DATA:\<newline>'' @
     context @
     ''\<newline>\<newline>DATABASE SUMMARY: '' @ facility_summary @ ''\<newline>'' @ memory @
     ''\<newline>\<newline>INSTRUCTIONS:\<newline>1. Answer questions about healthcare facilities, medical deserts, and healthcare gaps in Ghana.\<newline>2. Cite specific facility IDs (e.g., [GH-0001]) and names.\<newline>3. Identify medical deserts and infrastructure gaps.\<newline>4. Provide actionable recommendations for NGO planners.\<newline>5. Be specific with data (beds, staff, equipment, services).\<newline>6. If something isn't in the data, say so clearly.\<newline>7. Reference previous conversation context when relevant.\<newline>''\<close>

text \<open>
  Lines 636-665: the generation step. A raise of the client gives the fallback text,
  which reports \<open>len(search_results)\<close>; the step of a successful call reports
  \<open>len(context_parts)\<close>.
\<close>

definition fallback_text :: "py_exception \<Rightarrow> nat \<Rightarrow> string" where
  "fallback_text e n_found =
     ''Error processing query: '' @ exc_str e @ ''. Found '' @ str_nat n_found @ '' relevant records.''"

definition generate :: "'m world \<Rightarrow> call_env \<Rightarrow> string \<Rightarrow> string \<Rightarrow> string \<Rightarrow> nat \<Rightarrow> nat \<Rightarrow> nat \<Rightarrow> 'm
    \<Rightarrow> string \<times> reasoning_step \<times> 'm" where
  "generate w env session_id prompt message n_found n_docs n_history m =
     (case llm_send env (''rag_'' @ session_id @ ''_'' @ take 6 (uuid_llm env)) prompt message of
        Inr response_text \<Rightarrow>
          (response_text,
           \<lparr>rs_step = 5, rs_action = ''LLM Generation (Gemini 2.5 Flash)'',
            rs_detail = ''Generated response in '' @ fmt_0f w (llm_ms env) @ ''ms using '' @
                        str_nat n_docs @ '' context documents + conversation memory'',
            rs_data_used = DataStr (''System prompt + '' @ str_nat n_docs @ '' docs + '' @
                                    str_nat n_history @ '' memory turns'')\<rparr>,
           best_effort (mlflow w)
             (log_agent_step w 5 ''LLM Generation''
                (''Generated in '' @ fmt_0f w (llm_ms env) @ ''ms'')
                (str_nat n_docs @ '' docs'') (llm_ms env) @
              [LogMetric ''llm_latency_ms'' (llm_ms env),
               LogMetric ''response_length'' (real (length response_text))]) m)
      | Inl e \<Rightarrow>
          (fallback_text e n_found,
           \<lparr>rs_step = 5, rs_action = ''LLM Generation - Error'',
            rs_detail = ''Error: '' @ exc_str e,
            rs_data_used = DataStr ''Fallback response''\<rparr>,
           m))"

subsection \<open>The endpoint\<close>

text \<open>
  \<open>chat_endpoint\<close> (lines 514-697). An exception of the retrieval is not caught: the
  request ends with it, nothing is stored. Otherwise the turn is appended to
  \<open>chat_history\<close> and the response is returned. The document store is a list of
  documents in insertion order and answers every read and write.
\<close>

definition chat_endpoint :: "'m world \<Rightarrow> call_env \<Rightarrow> 'm server \<Rightarrow> chat_request
    \<Rightarrow> (py_exception + chat_response) \<times> 'm server" where
  "chat_endpoint w env st req =
     (let session_id = effective_session_id env req;
          message = req_message req;
          (run_id, m1) = start_tracking w session_id message (mlflow_state st);
          step1 = \<lparr>rs_step = 1, rs_action = ''Query Analysis'',
                   rs_detail = ''Analyzing user query: '' @ quote @ message @ quote,
                   rs_data_used = DataStr ''User input''\<rparr>;
          m2 = best_effort (mlflow w)
                 (log_agent_step w 1 ''Query Analysis'' (''Query: '' @ message) ''User input'' 0) m1;
          history_docs = load_history w st session_id;
          conversation_context = concat (map turn_text history_docs);
          step2 = memory_step history_docs;
          m3 = (if history_docs \<noteq> [] then
                  best_effort (mlflow w)
                    (log_agent_step w 2 ''Memory Retrieval''
                       (str_nat (length history_docs) @ '' turns loaded'')
                       (''session='' @ session_id) (memory_ms env)) m2
                else m2)
      in case search_similar (query_encoder w) (retrieval_state st) message 5 of
           Inl e \<Rightarrow> (Inl e, st\<lparr>mlflow_state := m3\<rparr>)
         | Inr search_results \<Rightarrow>
             (let n = length search_results;
                  ids = map hit_facility_id search_results;
                  step3 = \<lparr>rs_step = 3,
                           rs_action = ''Semantic Search (FAISS + sentence-transformers)'',
                           rs_detail = ''Retrieved '' @ str_nat n @ '' documents in '' @
                                       fmt_0f w (search_ms env) @
                                       ''ms using sentence-transformers embeddings'',
                           rs_data_used = DataList ids\<rparr>;
                  m4 = best_effort (mlflow w)
                         (log_agent_step w 3 ''Semantic Search''
                            (str_nat n @ '' docs, '' @ fmt_0f w (search_ms env) @ ''ms'')
                            (py_str_list w ids) (search_ms env) @
                          [LogMetric ''faiss_search_ms'' (search_ms env),
                           LogMetric ''docs_retrieved'' (real n)]) m3;
                  context_parts = map context_part (enumerate 0 search_results);
                  citations = map cite search_results;
                  context = py_join (nl @ nl @ ''---'' @ nl @ nl) context_parts;
                  all_facilities = take 5000 (db_facilities st);
                  facility_summary =
                    ''Total: '' @ str_nat (length all_facilities) @ '' facilities across '' @
                    str_nat (card (set (map fac_region all_facilities))) @ '' regions.'';
                  step4 = \<lparr>rs_step = 4, rs_action = ''Context Assembly'',
                           rs_detail = ''Combined '' @ str_nat n @ '' retrieved docs + '' @
                                       str_nat (length history_docs) @
                                       '' conversation turns + DB summary'',
                           rs_data_used = DataStr ''FAISS results + memory + summary''\<rparr>;
                  prompt = system_prompt context facility_summary
                             (memory_section conversation_context);
                  (response_text, step5, m5) =
                     generate w env session_id prompt message n (length context_parts)
                       (length history_docs) m4;
                  reasoning_steps = [step1, step2, step3, step4, step5];
                  turn = \<lparr>doc_session_id = session_id, doc_message = message,
                          doc_response = response_text, doc_citations = citations,
                          doc_reasoning_steps = reasoning_steps,
                          doc_mlflow_run_id = run_id, doc_created_at = now env\<rparr>;
                  m6 = end_tracking w (total_ms env) (length citations)
                         (length reasoning_steps) m5
              in (Inr \<lparr>resp_response = response_text, resp_citations = citations,
                       resp_reasoning_steps = reasoning_steps, resp_session_id = session_id,
                       resp_mlflow_run_id = run_id\<rparr>,
                  st\<lparr>db_chat_history := db_chat_history st @ [turn], mlflow_state := m6\<rparr>)))"

text \<open>\<open>get_chat_history\<close> (lines 700-705): the turns of a session, oldest first, at most 100.\<close>

definition get_chat_history :: "'m world \<Rightarrow> 'm server \<Rightarrow> string \<Rightarrow> chat_doc list" where
  "get_chat_history w st session_id =
     take 100 (mongo_sort w 1
       (filter (\<lambda>d. doc_session_id d = session_id) (db_chat_history st)))"

text \<open>
  What the endpoints take for granted of the store's sort on \<open>created_at\<close>: the result
  holds the same documents, ascending for direction 1 and descending for direction -1.
  The order among documents of equal \<open>created_at\<close> is left open.
\<close>

definition mongo_sort_contract :: "(int \<Rightarrow> chat_doc list \<Rightarrow> chat_doc list) \<Rightarrow> bool" where
  "mongo_sort_contract srt =
     (\<forall>ds. mset (srt 1 ds) = mset ds \<and> sorted (map doc_created_at (srt 1 ds)) \<and>
           mset (srt (- 1) ds) = mset ds \<and> sorted (rev (map doc_created_at (srt (- 1) ds))))"


section \<open>Natural-language query endpoint (server.py, lines 213-275 and 712-773)\<close>

subsection \<open>JSON values and Python operations on them\<close>

text \<open>
  What \<open>json.loads\<close> returns: None, bool, int, float, str, list, or dict (insertion
  ordered, keys distinct). A float is a real number here; the two infinities and NaN,
  which \<open>json.loads\<close> also accepts, are not modelled.
\<close>

datatype json =
    JNull
  | JBool bool
  | JInt int
  | JFloat real
  | JStr string
  | JArr "json list"
  | JObj "(string \<times> json) list"

text \<open>The name of the Python type of a value, as exception messages print it.\<close>

fun py_type_name :: "json \<Rightarrow> string" where
  "py_type_name JNull = ''NoneType''"
| "py_type_name (JBool b) = ''bool''"
| "py_type_name (JInt n) = ''int''"
| "py_type_name (JFloat r) = ''float''"
| "py_type_name (JStr s) = ''str''"
| "py_type_name (JArr xs) = ''list''"
| "py_type_name (JObj kvs) = ''dict''"

text \<open>The truth value of \<open>if v:\<close>.\<close>

fun truthy :: "json \<Rightarrow> bool" where
  "truthy JNull = False"
| "truthy (JBool b) = b"
| "truthy (JInt n) = (n \<noteq> 0)"
| "truthy (JFloat r) = (r \<noteq> 0)"
| "truthy (JStr s) = (s \<noteq> [])"
| "truthy (JArr xs) = (xs \<noteq> [])"
| "truthy (JObj kvs) = (kvs \<noteq> [])"

text \<open>
  \<open>query_spec.get(key, default)\<close>: only a dict has the method; on any other value the
  attribute lookup raises AttributeError.
\<close>

definition spec_get :: "json \<Rightarrow> string \<Rightarrow> json \<Rightarrow> py_exception + json" where
  "spec_get query_spec k dflt =
     (case query_spec of
        JObj kvs \<Rightarrow> Inr (case map_of kvs k of None \<Rightarrow> dflt | Some v \<Rightarrow> v)
      | _ \<Rightarrow> Inl (AttributeError (quote @ py_type_name query_spec @ quote @
                 '' object has no attribute '' @ quote @ ''get'' @ quote)))"

text \<open>\<open>sub in s\<close> on strings.\<close>

fun contains :: "string \<Rightarrow> string \<Rightarrow> bool" where
  "contains sub [] = (sub = [])"
| "contains sub (c # cs) = (take (length sub) (c # cs) = sub \<or> contains sub cs)"

text \<open>
  Lines 732-733: \<open>if "_id" not in projection: projection["_id"] = 0\<close>. Membership is by
  key in a dict, by element in a list, by substring in a string, and a TypeError on the
  other values; the item assignment works on a dict only.
\<close>

fun ensure_id :: "json \<Rightarrow> py_exception + json" where
  "ensure_id (JObj kvs) =
     Inr (if ''_id'' \<in> fst ` set kvs then JObj kvs else JObj (kvs @ [(''_id'', JInt 0)]))"
| "ensure_id (JArr xs) =
     (if JStr ''_id'' \<in> set xs then Inr (JArr xs)
      else Inl (TypeError ''list indices must be integers or slices, not str''))"
| "ensure_id (JStr s) =
     (if contains ''_id'' s then Inr (JStr s)
      else Inl (TypeError (quote @ ''str'' @ quote @ '' object does not support item assignment'')))"
| "ensure_id v =
     Inl (TypeError (''argument of type '' @ quote @ py_type_name v @ quote @ '' is not iterable''))"

text \<open>
  Line 735: \<open>min(v, 50)\<close>. \<open>min\<close> returns its first argument unless the second is
  smaller, so a bool and a float not above 50 come back as they are; the comparison
  with any other type raises TypeError.
\<close>

fun py_min_50 :: "json \<Rightarrow> py_exception + json" where
  "py_min_50 (JInt n) = Inr (if 50 < n then JInt 50 else JInt n)"
| "py_min_50 (JBool b) = Inr (JBool b)"
| "py_min_50 (JFloat r) = Inr (if 50 < r then JInt 50 else JFloat r)"
| "py_min_50 v =
     Inl (TypeError (quote @ ''<'' @ quote @ '' not supported between instances of '' @
                     quote @ ''int'' @ quote @ '' and '' @ quote @ py_type_name v @ quote))"

text \<open>\<open>sort_spec.items()\<close>.\<close>

definition py_items :: "json \<Rightarrow> py_exception + (string \<times> json) list" where
  "py_items v =
     (case v of
        JObj kvs \<Rightarrow> Inr kvs
      | _ \<Rightarrow> Inl (AttributeError (quote @ py_type_name v @ quote @
                 '' object has no attribute '' @ quote @ ''items'' @ quote)))"

text \<open>Sequencing of steps that may raise.\<close>

definition and_then :: "py_exception + 'a \<Rightarrow> ('a \<Rightarrow> py_exception + 'b) \<Rightarrow> py_exception + 'b" where
  "and_then r f = (case r of Inl e \<Rightarrow> Inl e | Inr x \<Rightarrow> f x)"

subsection \<open>The generation step\<close>

text \<open>\<open>str.strip()\<close> on ASCII text.\<close>

definition is_space :: "char \<Rightarrow> bool" where
  "is_space c = (c \<in> set [CHR 0x09, CHR 0x0A, CHR 0x0B, CHR 0x0C, CHR 0x0D,
                           CHR 0x1C, CHR 0x1D, CHR 0x1E, CHR 0x1F, CHR 0x20])"

definition py_strip :: "string \<Rightarrow> string" where
  "py_strip s = rev (dropWhile is_space (rev (dropWhile is_space s)))"

text \<open>The text before the next code fence: element 1 of \<open>split\<close> on a text that starts with one.\<close>

fun upto_fence :: "string \<Rightarrow> string" where
  "upto_fence [] = []"
| "upto_fence (c # cs) = (if take 3 (c # cs) = ''```'' then [] else c # upto_fence cs)"

text \<open>Lines 268-273: the answer without its surrounding white space and code fence.\<close>

definition clean_reply :: "string \<Rightarrow> string" where
  "clean_reply response_text =
     (let t = py_strip response_text;
          t = (if take 3 t = ''```'' then
                 (let u = upto_fence (drop 3 t) in if take 4 u = ''json'' then drop 4 u else u)
               else t)
      in py_strip t)"

definition schema_info :: string where
  \<open>schema_info = ''\<newline>MongoDB Collection: facilities\<newline>Fields:\<newline>- facility_id: string (e.g. "GH-0001")\<newline>- name: string (facility name)\<newline>- region: string (e.g. "Greater Accra", "Northern", "Upper West", "Ashanti", "Western", "Eastern", "Central", "Volta", "Brong Ahafo", "Upper East")\<newline>- district: string\<newline>- town: string\<newline>- type: string (e.g. "Teaching Hospital", "Regional Hospital", "District Hospital", "Health Centre", "Clinic", "CHPS", "Polyclinic", "Hospital", "Maternity Home", "RCH", "Psychiatric Hospital")\<newline>- ownership: string (e.g. "Government", "Private", "CHAG", "Quasi-Government")\<newline>- latitude: float\<newline>- longitude: float\<newline>- beds: int\<newline>- staff_count: int\<newline>- specialties: array of strings (e.g. ["Surgery", "Internal Medicine", "Pediatrics", "Obstetrics", "Cardiology", "Neurology"])\<newline>- equipment: array of strings (e.g. ["MRI", "CT Scanner", "X-Ray", "Ultrasound", "Ventilators"])\<newline>- services: array of strings (e.g. ["Emergency", "ICU", "Surgery", "Laboratory", "Pharmacy", "Blood Bank"])\<newline>- operational_status: string (e.g. "Fully Operational", "Operational", "Operational - Resource Constrained", "Operational - Minimal Capacity")\<newline>- capabilities_text: string (free-text description)\<newline>- notes: string (contains "MEDICAL DESERT" for desert facilities)\<newline>- last_inspection: string (date)\<newline>''\<close>

definition query_prompt :: "string \<Rightarrow> string" where
  \<open>query_prompt natural_query =
     ''Convert this natural language query into a MongoDB find() query (JSON format).\<newline>\<newline>SCHEMA:\<newline>'' @
     schema_info @
     ''\<newline>\<newline>QUERY: "'' @
     natural_query @
     ''"\<newline>\<newline>Return ONLY a valid JSON object with two keys:\<newline>- "filter": the MongoDB filter query\<newline>- "projection": fields to return (always exclude _id)\<newline>- "sort": optional sort criteria\<newline>- "limit": optional limit (default 20)\<newline>- "explanation": brief explanation of what the query does\<newline>\<newline>Example output:\<newline>{"filter": {"region": "Northern", "beds": {"$gt": 100}}, "projection": {"_id": 0, "name": 1, "region": 1, "beds": 1}, "sort": {"beds": -1}, "limit": 20, "explanation": "Finds facilities in the Northern region with more than 100 beds, sorted by bed count"}\<newline>\<newline>Return ONLY the JSON, no markdown or extra text.''\<close>

text \<open>
  The collaborators of the endpoint: the logger, \<open>json.loads\<close> and \<open>json.dumps\<close>, the
  driver (\<open>find\<close> gives a cursor, \<open>sort\<close> another, and \<open>cursor_fetch\<close> is the sequence of
  documents a cursor yields when it is run), and the validation of the response model.
\<close>

record ('m, 'c) query_world =
  q_mlflow :: "'m mlflow"
  json_loads :: "string \<Rightarrow> py_exception + json"
  json_dumps :: "json \<Rightarrow> string"
  coll_find :: "json \<Rightarrow> json \<Rightarrow> py_exception + 'c"
  cursor_sort :: "'c \<Rightarrow> (string \<times> json) list \<Rightarrow> py_exception + 'c"
  cursor_fetch :: "'c \<Rightarrow> py_exception + json list"
  response_model :: "string \<Rightarrow> json \<Rightarrow> json list \<Rightarrow> nat \<Rightarrow> json \<Rightarrow> py_exception option"

text \<open>What one request reads: two uuid values, the latency, the generation client.\<close>

record query_env =
  q_uuid_run :: string
  q_uuid_llm :: string
  q_llm_ms :: real
  q_llm_send :: "string \<Rightarrow> string \<Rightarrow> string \<Rightarrow> py_exception + string"

text \<open>\<open>text_to_mongo_query\<close> (lines 213-275).\<close>

definition text_to_mongo_query :: "('m, 'c) query_world \<Rightarrow> query_env \<Rightarrow> string \<Rightarrow> py_exception + json" where
  "text_to_mongo_query w env natural_query =
     (case q_llm_send env (''t2sql_'' @ take 6 (q_uuid_llm env))
             ''You are a MongoDB query generator. Convert natural language to MongoDB queries. Return ONLY valid JSON.''
             (query_prompt natural_query) of
        Inl e \<Rightarrow> Inl e
      | Inr response_text \<Rightarrow> json_loads w (clean_reply response_text))"

subsection \<open>The endpoint\<close>

text \<open>\<open>Text2SQLResponse\<close> (lines 84-89) and the HTTP error of the endpoint.\<close>

record text2sql_response =
  t2s_natural_query :: string
  t2s_mongo_query :: json
  t2s_results :: "json list"
  t2s_result_count :: nat
  t2s_explanation :: json

datatype http_exception = HTTPException nat string

text \<open>
  \<open>cursor.to_list(length)\<close> of the driver: the length must be an int (a bool is one) and
  not negative; the result is the first \<open>length\<close> documents the cursor yields.
\<close>

definition to_list :: "('m, 'c) query_world \<Rightarrow> 'c \<Rightarrow> json \<Rightarrow> py_exception + json list" where
  "to_list w cursor len =
     (case len of
        JInt n \<Rightarrow>
          (if n < 0 then Inl (ValueError ''length must be non-negative'')
           else and_then (cursor_fetch w cursor) (\<lambda>docs. Inr (take (nat n) docs)))
      | JBool b \<Rightarrow>
          and_then (cursor_fetch w cursor) (\<lambda>docs. Inr (take (if b then 1 else 0) docs))
      | _ \<Rightarrow> Inl (TypeError ''length must be an int''))"

text \<open>
  Lines 730-741: the query specification is read and run. The result is the filter,
  the rows and the explanation.
\<close>

definition run_query :: "('m, 'c) query_world \<Rightarrow> json \<Rightarrow> py_exception + (json \<times> json list \<times> json)" where
  "run_query w query_spec =
     and_then (spec_get query_spec ''filter'' (JObj [])) (\<lambda>mongo_filter.
     and_then (spec_get query_spec ''projection'' (JObj [(''_id'', JInt 0)])) (\<lambda>projection0.
     and_then (ensure_id projection0) (\<lambda>projection.
     and_then (spec_get query_spec ''sort'' JNull) (\<lambda>sort_spec.
     and_then (spec_get query_spec ''limit'' (JInt 20)) (\<lambda>limit0.
     and_then (py_min_50 limit0) (\<lambda>limit.
     and_then (spec_get query_spec ''explanation'' (JStr [])) (\<lambda>explanation.
     and_then (coll_find w mongo_filter projection) (\<lambda>cursor.
     and_then (if truthy sort_spec
               then and_then (py_items sort_spec) (cursor_sort w cursor)
               else Inr cursor) (\<lambda>cursor.
     and_then (to_list w cursor limit) (\<lambda>results.
       Inr (mongo_filter, results, explanation)))))))))))"

text \<open>Lines 743-752: the closing log calls, best effort.\<close>

definition log_query :: "('m, 'c) query_world \<Rightarrow> query_env \<Rightarrow> json \<Rightarrow> nat \<Rightarrow> 'm \<Rightarrow> 'm" where
  "log_query w env mongo_filter n m =
     (case attempt (q_mlflow w)
             [LogMetric ''text2sql_latency_ms'' (q_llm_ms env),
              LogMetric ''result_count'' (real n),
              LogParam ''mongo_filter'' (take 250 (json_dumps w mongo_filter)),
              EndRun] m of
        (True, m') \<Rightarrow> m'
      | (False, m') \<Rightarrow> best_effort (q_mlflow w) [EndRun] m')"

text \<open>Lines 762-773: the two handlers. Each ends the run, best effort, and raises.\<close>

definition to_http :: "py_exception \<Rightarrow> http_exception" where
  "to_http e =
     (case e of
        JSONDecodeError msg \<Rightarrow>
          HTTPException 422 ''Failed to parse LLM response into MongoDB query. Try rephrasing.''
      | _ \<Rightarrow> HTTPException 500 (''Text2SQL error: '' @ exc_str e))"

text \<open>\<open>text2sql_endpoint\<close> (lines 713-773).\<close>

definition text2sql_endpoint :: "('m, 'c) query_world \<Rightarrow> query_env \<Rightarrow> 'm \<Rightarrow> string
    \<Rightarrow> (http_exception + text2sql_response) \<times> 'm" where
  "text2sql_endpoint w env m query =
     (let m1 = best_effort (q_mlflow w)
                 [StartRun (''text2sql_'' @ take 8 (q_uuid_run env)) [(''type'', ''text2sql'')],
                  LogParam ''natural_query'' (take 250 query)] m
      in case and_then (text_to_mongo_query w env query) (run_query w) of
           Inl e \<Rightarrow> (Inl (to_http e), best_effort (q_mlflow w) [EndRun] m1)
         | Inr (mongo_filter, results, explanation) \<Rightarrow>
             (let m2 = log_query w env mongo_filter (length results) m1 in
              case response_model w query mongo_filter results (length results) explanation of
                Some e \<Rightarrow> (Inl (to_http e), best_effort (q_mlflow w) [EndRun] m2)
              | None \<Rightarrow>
                  (Inr \<lparr>t2s_natural_query = query, t2s_mongo_query = mongo_filter,
                        t2s_results = results, t2s_result_count = length results,
                        t2s_explanation = explanation\<rparr>, m2)))"

text \<open>
  The number of rows lines 735 and 741 ask the cursor for, for the values of \<open>limit\<close>
  with which \<open>to_list\<close> returns: an int counts up to 50, a bool counts 0 or 1, a float
  above 50 counts 50.
\<close>

fun effective_limit :: "json \<Rightarrow> nat" where
  "effective_limit (JInt n) = nat (min n 50)"
| "effective_limit (JBool b) = (if b then 1 else 0)"
| "effective_limit v = 50"


section \<open>Sample inputs\<close>

definition sample_index :: faiss where
  "sample_index v k = Inr ([9/10, 1/2, 0, -1/5], [2, 0, 1, -1])"

definition sample_retrieval :: retrieval where
  "sample_retrieval = \<lparr>faiss_index = Some sample_index,
     facility_texts = [''Facility: A'', ''Facility: B'', ''Facility: C''],
     facility_ids = [''GH-0001'', ''GH-0002'', ''GH-0003'']\<rparr>"

definition test_clinic :: facility where
  "test_clinic = \<lparr>fac_facility_id = ''GH-0002'', fac_name = ''Test Clinic'',
     fac_region = ''Northern'', fac_district = ''Tamale'', fac_type = ''Clinic'',
     fac_beds = Some 10, fac_staff_count = None, fac_specialties = None, fac_equipment = None,
     fac_services = Some [''Outpatient''], fac_operational_status = ''Operational'',
     fac_capabilities_text = ''Basic outpatient care.'', fac_notes = ''MEDICAL DESERT''\<rparr>"

definition korle_bu :: facility where
  "korle_bu = \<lparr>fac_facility_id = ''GH-0001'', fac_name = ''Korle Bu'',
     fac_region = ''Greater Accra'', fac_district = ''Accra'', fac_type = ''Teaching Hospital'',
     fac_beds = Some 2000, fac_staff_count = Some 4000,
     fac_specialties = Some [''Surgery'', ''Pediatrics'', ''Cardiology''],
     fac_equipment = Some [''MRI''],
     fac_services = Some [''Surgery'', ''ICU'', ''Blood Bank''],
     fac_operational_status = ''Fully Operational'',
     fac_capabilities_text = ''Tertiary referral centre.'', fac_notes = []\<rparr>"


definition sample_corpus :: "facility list" where
  "sample_corpus = [korle_bu, test_clinic]"

definition sample_order1 :: "string set \<Rightarrow> string list" where
  "sample_order1 s = filter (\<lambda>x. x \<in> s) [''Surgery'', ''Pediatrics'', ''Cardiology'']"

definition sample_order2 :: "string set \<Rightarrow> string list" where
  "sample_order2 s = filter (\<lambda>x. x \<in> s) [''Cardiology'', ''Pediatrics'', ''Surgery'']"

text \<open>A store whose sort is the stable insertion sort, and its reverse for direction -1.\<close>

definition sample_sort :: "int \<Rightarrow> chat_doc list \<Rightarrow> chat_doc list" where
  "sample_sort direction ds =
     (if direction = 1 then sort_key doc_created_at ds else rev (sort_key doc_created_at ds))"

text \<open>A world whose logger raises at every call.\<close>

definition sample_world :: "unit world" where
  "sample_world = \<lparr>query_encoder = (\<lambda>q. Inr [1, 0]),
     mlflow = (\<lambda>c m. (Inl (ProviderError ''tracking server down''), m)),
     mongo_sort = sample_sort,
     fmt_0f = (\<lambda>x. ''12''),
     py_str_list = (\<lambda>xs. ''[]''),
     tracking_dir = ''/app/backend/mlruns''\<rparr>"

text \<open>Two requests of one session, the generation client raising at both.\<close>

definition sample_env1 :: call_env where
  "sample_env1 = \<lparr>uuid_session = ''0123456789abcdef0123456789abcdef'',
     uuid_llm = ''fedcba9876543210fedcba9876543210'',
     memory_ms = 1, search_ms = 12, llm_ms = 800, total_ms = 900, now = 1000,
     llm_send = (\<lambda>label prompt message. Inl (ProviderError ''budget exceeded''))\<rparr>"

definition sample_env2 :: call_env where
  "sample_env2 = sample_env1\<lparr>now := 3000\<rparr>"

definition sample_request1 :: chat_request where
  "sample_request1 = \<lparr>req_message = ''What hospitals are in Northern region?'',
     req_session_id = Some ''test_multi_turn_session''\<rparr>"

definition sample_request2 :: chat_request where
  "sample_request2 = \<lparr>req_message = ''How many beds do they have in total?'',
     req_session_id = Some ''test_multi_turn_session''\<rparr>"

definition sample_server :: "unit server" where
  "sample_server = \<lparr>retrieval_state = initial_retrieval, db_facilities = sample_corpus,
     db_chat_history = [], mlflow_state = ()\<rparr>"

text \<open>A session with seven stored turns, and one turn of another session.\<close>

definition sample_turn :: "string \<Rightarrow> int \<Rightarrow> chat_doc" where
  "sample_turn sid t = \<lparr>doc_session_id = sid, doc_message = ''q'', doc_response = ''a'',
     doc_citations = [], doc_reasoning_steps = [], doc_mlflow_run_id = None,
     doc_created_at = t\<rparr>"

definition sample_busy_server :: "unit server" where
  "sample_busy_server = sample_server\<lparr>db_chat_history :=
     [sample_turn ''s1'' 10, sample_turn ''s1'' 20, sample_turn ''s2'' 25, sample_turn ''s1'' 30,
      sample_turn ''s1'' 40, sample_turn ''s1'' 50, sample_turn ''s1'' 60, sample_turn ''s1'' 70]\<rparr>"

text \<open>
  A parser that agrees with \<open>json.loads\<close> on the three answers used below, and a store
  of 60 documents whose cursors are the document lists themselves.
\<close>

definition sample_json_loads :: "string \<Rightarrow> py_exception + json" where
  \<open>sample_json_loads s =
     (if s = ''{"limit": 1000}'' then Inr (JObj [(''limit'', JInt 1000)])
      else if s = ''{"limit": "ten"}'' then Inr (JObj [(''limit'', JStr ''ten'')])
      else Inl (JSONDecodeError ''Expecting value: line 1 column 1 (char 0)''))\<close>

definition sample_query_world :: "(unit, json list) query_world" where
  "sample_query_world = \<lparr>q_mlflow = (\<lambda>c m. (Inl (ProviderError ''tracking server down''), m)),
     json_loads = sample_json_loads,
     json_dumps = (\<lambda>v. ''{}''),
     coll_find = (\<lambda>flt proj. Inr (replicate 60 (JObj [(''name'', JStr ''Test Clinic'')]))),
     cursor_sort = (\<lambda>c keys. Inr c),
     cursor_fetch = (\<lambda>c. Inr c),
     response_model = (\<lambda>q flt rows n expl. None)\<rparr>"

definition sample_query_env :: "string \<Rightarrow> query_env" where
  "sample_query_env reply = \<lparr>q_uuid_run = ''0123456789abcdef0123456789abcdef'',
     q_uuid_llm = ''fedcba9876543210fedcba9876543210'', q_llm_ms = 700,
     q_llm_send = (\<lambda>label system_message prompt. Inr reply)\<rparr>"

definition reply_big_limit :: string where
  \<open>reply_big_limit = ''```json\<newline>{"limit": 1000}\<newline>```''\<close>

definition reply_text_limit :: string where
  \<open>reply_text_limit = ''{"limit": "ten"}''\<close>

definition reply_prose :: string where
  "reply_prose = ''I cannot answer that.''"

section \<open>Properties of the retrieval service\<close>

text \<open>
  With the two parallel arrays of equal length and every position of the enumeration
  inside \<open>scores\<close>, the loop raises nothing and its result is the accumulator followed
  by the kept rows, in the order of the enumeration.
\<close>

lemma collect_hits_eq:
  assumes "length (facility_ids st) = length (facility_texts st)"
    and "\<forall>p \<in> set ps. fst p < length scores"
  shows "collect_hits st scores ps acc =
     Inr (acc @ map (\<lambda>p. \<lparr>hit_facility_id = facility_ids st ! nat (snd p),
                           hit_text = facility_texts st ! nat (snd p),
                           hit_score = scores ! fst p\<rparr>)
                (filter (\<lambda>p. 0 \<le> snd p \<and> snd p < int (length (facility_texts st)) \<and> 0 < scores ! fst p) ps))"
  using assms(2)
proof (induction ps arbitrary: acc)
  case Nil
  then show ?case by simp
next
  case (Cons p ps)
  obtain i idx where p: "p = (i, idx)" by (cases p)
  from Cons.prems have i: "i < length scores" and rest: "\<forall>p \<in> set ps. fst p < length scores"
    by (simp_all add: p)
  show ?case
    using assms(1) i Cons.IH [OF rest] by (auto simp: p)
qed

lemma enumerate_sorted:
  assumes "sorted_wrt (\<lambda>a b. b \<le> a) scores" "length indices \<le> length scores"
  shows "sorted_wrt (\<lambda>p q. scores ! fst q \<le> scores ! fst p) (enumerate 0 (indices :: int list))"
  using assms
  by (auto simp: sorted_wrt_iff_nth_less nth_enumerate_eq)

lemma enumerate_fst_bound:
  "\<forall>p \<in> set (enumerate 0 (indices :: int list)). fst p < length indices"
  by (auto simp: enumerate_eq_zip dest: set_zip_leftD)

text \<open>
  C1. For every query and every result count \<open>top_k \<ge> 0\<close>, with the collaborators
  behaving as \<open>search_contract\<close> says and the two parallel arrays of equal length,
  \<open>search_similar\<close> returns a list of at most \<open>top_k\<close> hits, every hit has a score
  strictly greater than 0, and the hits are in descending order of score.
\<close>

theorem search_similar_top_k:
  assumes "search_contract encode_query st query top_k"
    and "length (facility_ids st) = length (facility_texts st)"
    and "0 \<le> top_k"
  shows "\<exists>rs. search_similar encode_query st query top_k = Inr rs \<and>
            int (length rs) \<le> top_k \<and>
            (\<forall>r \<in> set rs. 0 < hit_score r) \<and>
            sorted_wrt (\<lambda>a b. hit_score b \<le> hit_score a) rs"
proof (cases "faiss_index st")
  case None
  then show ?thesis using assms(3) by (simp add: search_similar_def)
next
  case (Some index)
  with assms(1) obtain v scores indices where
    enc: "encode_query query = Inr v" and
    srch: "index v top_k = Inr (scores, indices)" and
    len: "length indices \<le> nat top_k" and
    same: "length scores = length indices" and
    srt: "sorted_wrt (\<lambda>a b. b \<le> a) scores"
    by (auto simp: search_contract_def split: sum.splits)
  let ?keep = "\<lambda>p. 0 \<le> snd p \<and> snd p < int (length (facility_texts st)) \<and> 0 < scores ! fst p"
  let ?mk = "\<lambda>p. \<lparr>hit_facility_id = facility_ids st ! nat (snd p),
                   hit_text = facility_texts st ! nat (snd p),
                   hit_score = scores ! fst p\<rparr>"
  let ?rs = "map ?mk (filter ?keep (enumerate 0 indices))"
  have bound: "\<forall>p \<in> set (enumerate 0 indices). fst p < length scores"
    using enumerate_fst_bound [of indices] same by simp
  have res: "search_similar encode_query st query top_k = Inr ?rs"
    using collect_hits_eq [OF assms(2) bound, of "[]"] Some enc srch
    by (simp add: search_similar_def)
  have "length ?rs \<le> length (enumerate 0 indices)"
    using length_filter_le [of ?keep "enumerate 0 indices"] by simp
  then have l: "int (length ?rs) \<le> top_k" using len assms(3) by (simp del: length_filter_le)
  have pos: "\<forall>r \<in> set ?rs. 0 < hit_score r" by auto
  have "sorted_wrt (\<lambda>p q. scores ! fst q \<le> scores ! fst p) (filter ?keep (enumerate 0 indices))"
    using enumerate_sorted [OF srt] same by (simp add: sorted_wrt_filter)
  then have s: "sorted_wrt (\<lambda>a b. hit_score b \<le> hit_score a) ?rs"
    by (simp add: sorted_wrt_map)
  show ?thesis using res l pos s by blast
qed
lemma sample_search: "search_similar (\<lambda>q. Inr [1, 0]) sample_retrieval ''surgery'' 4 =
   Inr [\<lparr>hit_facility_id = ''GH-0003'', hit_text = ''Facility: C'', hit_score = 9/10\<rparr>,
        \<lparr>hit_facility_id = ''GH-0001'', hit_text = ''Facility: A'', hit_score = 1/2\<rparr>]"
  by (simp add: search_similar_def sample_retrieval_def sample_index_def enumerate_eq_zip upt_rec)

theorem search_similar_top_k_witness:
  "search_contract (\<lambda>q. Inr [1, 0]) sample_retrieval ''surgery'' 4 \<and>
   length (facility_ids sample_retrieval) = length (facility_texts sample_retrieval) \<and>
   (0::int) \<le> 4 \<and>
   search_similar (\<lambda>q. Inr [1, 0]) sample_retrieval ''surgery'' 4 =
   Inr [\<lparr>hit_facility_id = ''GH-0003'', hit_text = ''Facility: C'', hit_score = 9/10\<rparr>,
        \<lparr>hit_facility_id = ''GH-0001'', hit_text = ''Facility: A'', hit_score = 1/2\<rparr>]"
proof -
  have c: "search_contract (\<lambda>q. Inr [1, 0]) sample_retrieval ''surgery'' 4"
    by (simp add: search_contract_def sample_retrieval_def sample_index_def)
  have l: "length (facility_ids sample_retrieval) = length (facility_texts sample_retrieval)"
    by (simp add: sample_retrieval_def)
  have k: "(0::int) \<le> 4" by simp
  from search_similar_top_k [OF c l k] show ?thesis
    using c l sample_search by simp
qed

text \<open>
  C2. If the vector index has not been built (\<open>faiss_index\<close> is None), retrieval returns
  the empty list and raises nothing, for every query, every count and every encoder.
\<close>

theorem search_similar_unbuilt:
  "faiss_index st = None \<Longrightarrow> search_similar encode_query st query top_k = Inr []"
  by (simp add: search_similar_def)

theorem search_similar_unbuilt_witness:
  "faiss_index initial_retrieval = None \<and>
   search_similar (\<lambda>q. Inl (ProviderError ''model not loaded'')) initial_retrieval ''hospitals with ICU'' 5 = Inr []"
  using search_similar_unbuilt [of initial_retrieval "\<lambda>q. Inl (ProviderError ''model not loaded'')" "''hospitals with ICU''" 5]
  by (simp add: initial_retrieval_def)


subsection \<open>The parallel arrays\<close>

text \<open>
  \<open>facility_texts\<close> and \<open>facility_ids\<close> have the same length at import time, and
  \<open>build_faiss_index\<close>, the only code that assigns them, keeps them so: the loop appends
  to both in step.
\<close>

lemma build_chunks_lengths:
  "build_chunks facs texts ids = Inr (texts', ids') \<Longrightarrow> length ids = length texts \<Longrightarrow>
     length ids' = length texts' \<and> length texts' = length texts + length facs"
  by (induction facs arbitrary: texts ids) (auto split: sum.splits)

lemma initial_retrieval_parallel:
  "length (facility_ids initial_retrieval) = length (facility_texts initial_retrieval)"
  by (simp add: initial_retrieval_def)

lemma build_faiss_index_parallel:
  assumes "build_faiss_index make_index loaded (coll, st) = (outcome, coll', st')"
    and "length (facility_ids st) = length (facility_texts st)"
  shows "length (facility_ids st') = length (facility_texts st')"
proof (cases "build_chunks loaded [] []")
  case (Inl e)
  with assms show ?thesis by (simp add: build_faiss_index_def Let_def)
next
  case (Inr chunks)
  obtain texts ids where c: "chunks = (texts, ids)" by (cases chunks)
  from build_chunks_lengths [of loaded "[]" "[]" texts ids] Inr c
  have "length ids = length texts" by simp
  with assms Inr c show ?thesis
    by (auto simp: build_faiss_index_def Let_def split: sum.splits)
qed

section \<open>Properties of the desert analysis\<close>

lemma insort_key_map:
  "map f (insort_key (\<lambda>x. k (f x)) a ys) = insort_key k (f a) (map f ys)"
  by (induction ys) simp_all

lemma sort_key_map:
  "map f (sort_key (\<lambda>x. k (f x)) xs) = sort_key k (map f xs)"
  by (induction xs) (simp_all add: insort_key_map)

lemma raw_score_bounds: "0 \<le> raw_score data \<and> raw_score data \<le> 110"
  by (simp add: raw_score_def Let_def)

lemma assess_summary:
  "(rep_region (assess listing data), rep_desert_score (assess listing data), rep_severity (assess listing data)) =
   (region data, min (raw_score data) 100,
    if raw_score data \<ge> 60 then ''Critical'' else if raw_score data \<ge> 40 then ''Moderate'' else ''Adequate'')"
  by (simp add: assess_def Let_def)

lemma deserts_summary:
  "map (\<lambda>d. (rep_region d, rep_desert_score d, rep_severity d)) (get_medical_deserts listing facs) =
   sort_key (\<lambda>p. - fst (snd p))
     (map (\<lambda>(r, data). (region data, min (raw_score data) 100,
        if raw_score data \<ge> 60 then ''Critical'' else if raw_score data \<ge> 40 then ''Moderate'' else ''Adequate''))
        (aggregate (take 5000 facs)))"
proof -
  let ?proj = "\<lambda>d. (rep_region d, rep_desert_score d, rep_severity d)"
  have "map ?proj (sort_key (\<lambda>x. - rep_desert_score x) ds) = sort_key (\<lambda>p. - fst (snd p)) (map ?proj ds)" for ds
    using sort_key_map [of ?proj "\<lambda>p. - fst (snd p)" ds] by simp
  then have "map ?proj (get_medical_deserts listing facs) =
      sort_key (\<lambda>p. - fst (snd p)) (map ?proj (map (\<lambda>(r, data). assess listing data) (aggregate (take 5000 facs))))"
    by (simp only: get_medical_deserts_def Let_def)
  then show ?thesis
    by (simp add: assess_summary case_prod_unfold comp_def)
qed

lemma deserts_members:
  "d \<in> set (get_medical_deserts listing facs) \<Longrightarrow> \<exists>data. d = assess listing data"
  by (auto simp: get_medical_deserts_def Let_def)

text \<open>
  C4. The desert score and the severity label of every region are determined by the
  facility records alone: two runs on the same records, whatever order each run
  enumerates the specialty sets in, report the same regions in the same order with the
  same scores and labels. Every reported score lies in [0,100], and the label is
  Critical when the score is at least 60, Moderate when it is at least 40 and below 60,
  Adequate otherwise.
\<close>

theorem desert_analysis_deterministic_bounded:
  "map (\<lambda>d. (rep_region d, rep_desert_score d, rep_severity d)) (get_medical_deserts listing1 facs) =
   map (\<lambda>d. (rep_region d, rep_desert_score d, rep_severity d)) (get_medical_deserts listing2 facs) \<and>
   (\<forall>d \<in> set (get_medical_deserts listing1 facs).
      0 \<le> rep_desert_score d \<and> rep_desert_score d \<le> 100 \<and>
      rep_severity d = (if rep_desert_score d \<ge> 60 then ''Critical''
                        else if rep_desert_score d \<ge> 40 then ''Moderate'' else ''Adequate''))"
proof (intro conjI ballI)
  show "map (\<lambda>d. (rep_region d, rep_desert_score d, rep_severity d)) (get_medical_deserts listing1 facs) =
        map (\<lambda>d. (rep_region d, rep_desert_score d, rep_severity d)) (get_medical_deserts listing2 facs)"
    by (simp only: deserts_summary)
next
  fix d assume "d \<in> set (get_medical_deserts listing1 facs)"
  then obtain data where d: "d = assess listing1 data" using deserts_members by blast
  have b: "0 \<le> raw_score data" using raw_score_bounds by simp
  show "0 \<le> rep_desert_score d" using b by (simp add: d assess_def Let_def)
  show "rep_desert_score d \<le> 100" by (simp add: d assess_def Let_def)
  show "rep_severity d = (if rep_desert_score d \<ge> 60 then ''Critical''
                        else if rep_desert_score d \<ge> 40 then ''Moderate'' else ''Adequate'')"
    by (simp add: d assess_def Let_def)
qed

lemma aggregate_snoc: "aggregate (facs @ [fac]) = aggregate_step (aggregate facs) fac"
  by (simp add: aggregate_def)

lemma aggregate_keys:
  "distinct (map fst (aggregate facs)) \<and> set (map fst (aggregate facs)) = fac_region ` set facs"
proof (induction facs rule: rev_induct)
  case Nil
  then show ?case by (simp add: aggregate_def)
next
  case (snoc fac facs)
  have m: "fst \<circ> (\<lambda>(k, d). if k = r then (k, g d) else (k, d)) = fst" for r :: string and g :: "region_acc \<Rightarrow> region_acc"
    by (auto simp: fun_eq_iff)
  show ?case
    using snoc.IH
    by (auto simp: aggregate_snoc aggregate_step_def Let_def m map_of_eq_None_iff)
qed

lemma aggregate_surgery:
  "(k, d) \<in> set (aggregate facs) \<Longrightarrow>
     region d = k \<and>
     has_surgery d = (\<exists>f \<in> set facs. fac_region f = k \<and> ''Surgery'' \<in> set (get_or (fac_services f) []))"
proof (induction facs arbitrary: k d rule: rev_induct)
  case Nil
  then show ?case by (simp add: aggregate_def)
next
  case (snoc fac facs)
  let ?r = "fac_region fac"
  let ?regions1 = "(if map_of (aggregate facs) ?r = None then aggregate facs @ [(?r, new_region ?r)] else aggregate facs)"
  from snoc.prems
  have "(k, d) \<in> (\<lambda>(k, d). if k = ?r then (k, absorb d fac) else (k, d)) ` set ?regions1"
    by (simp add: aggregate_snoc aggregate_step_def Let_def)
  then obtain k0 d0 where
    "(k0, d0) \<in> set ?regions1" "(k, d) = (if k0 = ?r then (k0, absorb d0 fac) else (k0, d0))"
    by (auto simp: image_iff)
  then have mem: "(k, d0) \<in> set ?regions1" and d: "d = (if k = ?r then absorb d0 fac else d0)"
    by (simp_all split: if_splits)
  have keys: "set (map fst (aggregate facs)) = fac_region ` set facs"
    using aggregate_keys by blast
  show ?case
  proof (cases "(k, d0) \<in> set (aggregate facs)")
    case True
    from snoc.IH [OF True] show ?thesis
      by (auto simp: d absorb_def)
  next
    case False
    with mem have new: "map_of (aggregate facs) ?r = None" "k = ?r" "d0 = new_region ?r"
      by (auto split: if_splits)
    from new(1) have "?r \<notin> fac_region ` set facs"
      using keys by (simp add: map_of_eq_None_iff)
    then have "\<forall>f \<in> set facs. fac_region f \<noteq> ?r" by (metis image_eqI)
    then show ?thesis
      by (auto simp: d new absorb_def new_region_def)
  qed
qed


lemma raw_score_surgery:
  "\<not> has_surgery data \<Longrightarrow> raw_score data = raw_score (data\<lparr>has_surgery := True\<rparr>) + 20"
  by (simp add: raw_score_def Let_def)

lemma deserts_set:
  "set (get_medical_deserts listing db) = (\<lambda>(r, data). assess listing data) ` set (aggregate (take 5000 db))"
  by (simp add: get_medical_deserts_def Let_def)

text \<open>
  C9. When the corpus read holds a facility and no facility of its region lists
  Surgery among its services, the analysis has exactly one entry for that region, its
  \<open>has_surgery\<close> flag is false, and that factor adds exactly 20 to the score: the score is
  20 more than the same region data would get with the flag set. The reported
  \<open>desert_score\<close> is that sum clamped at 100.
\<close>

theorem region_without_surgery:
  assumes "fac \<in> set (take 5000 db)"
    and "\<forall>f \<in> set (take 5000 db). fac_region f = fac_region fac \<longrightarrow>
           ''Surgery'' \<notin> set (get_or (fac_services f) [])"
  shows "\<exists>data. map_of (aggregate (take 5000 db)) (fac_region fac) = Some data \<and>
           \<not> has_surgery data \<and>
           raw_score data = raw_score (data\<lparr>has_surgery := True\<rparr>) + 20 \<and>
           assess listing data \<in> set (get_medical_deserts listing db) \<and>
           (\<forall>d \<in> set (get_medical_deserts listing db).
              rep_region d = fac_region fac \<longrightarrow> d = assess listing data) \<and>
           rep_region (assess listing data) = fac_region fac \<and>
           \<not> rep_has_surgery (assess listing data) \<and>
           rep_desert_score (assess listing data) =
             min (raw_score (data\<lparr>has_surgery := True\<rparr>) + 20) 100"
proof -
  let ?facs = "take 5000 db"
  let ?r = "fac_region fac"
  have dist: "distinct (map fst (aggregate ?facs))"
    and keys: "set (map fst (aggregate ?facs)) = fac_region ` set ?facs"
    using aggregate_keys [of ?facs] by simp_all
  from assms(1) keys have "?r \<in> fst ` set (aggregate ?facs)" by auto
  then obtain data where mem: "(?r, data) \<in> set (aggregate ?facs)" by force
  with dist have look: "map_of (aggregate ?facs) ?r = Some data" by simp
  from aggregate_surgery [OF mem] assms(2)
  have reg: "region data = ?r" and nosurg: "\<not> has_surgery data" by auto
  have plus: "raw_score data = raw_score (data\<lparr>has_surgery := True\<rparr>) + 20"
    using nosurg by (rule raw_score_surgery)
  have inrep: "assess listing data \<in> set (get_medical_deserts listing db)"
    using mem by (force simp: deserts_set)
  have uniq: "\<forall>d \<in> set (get_medical_deserts listing db). rep_region d = ?r \<longrightarrow> d = assess listing data"
  proof (intro ballI impI)
    fix d assume "d \<in> set (get_medical_deserts listing db)" and r: "rep_region d = ?r"
    then obtain k data' where m': "(k, data') \<in> set (aggregate ?facs)" and d: "d = assess listing data'"
      by (auto simp: deserts_set)
    from aggregate_surgery [OF m'] have "region data' = k" by simp
    with r d have "k = ?r" by (simp add: assess_def Let_def)
    with m' look dist have "data' = data" by simp
    with d show "d = assess listing data" by simp
  qed
  have score: "rep_desert_score (assess listing data) = min (raw_score (data\<lparr>has_surgery := True\<rparr>) + 20) 100"
    using plus by (simp add: assess_def Let_def)
  have r1: "rep_region (assess listing data) = ?r" using reg by (simp add: assess_def Let_def)
  have r2: "\<not> rep_has_surgery (assess listing data)" using nosurg by (simp add: assess_def Let_def)
  from look nosurg plus inrep uniq r1 r2 score show ?thesis by blast
qed

subsection \<open>The scenario of the specification: a corpus with Test Clinic\<close>

lemma corpus_aggregate:
  "aggregate (take 5000 sample_corpus) =
     [(''Greater Accra'', \<lparr>region = ''Greater Accra'', facilities = [''Korle Bu''], total_beds = 2000,
          total_staff = 4000, specialties = {''Surgery'', ''Pediatrics'', ''Cardiology''},
          has_surgery = True, has_icu = True, has_ct_mri = True, has_blood_bank = True, desert_score = 0\<rparr>),
      (''Northern'', \<lparr>region = ''Northern'', facilities = [''Test Clinic''], total_beds = 10,
          total_staff = 0, specialties = {},
          has_surgery = False, has_icu = False, has_ct_mri = False, has_blood_bank = False, desert_score = 0\<rparr>)]"
  by (simp add: sample_corpus_def aggregate_def aggregate_step_def absorb_def new_region_def
      get_or_def korle_bu_def test_clinic_def insert_commute Let_def)

lemma corpus_report:
  "map (\<lambda>d. (rep_region d, rep_desert_score d, rep_severity d)) (get_medical_deserts sample_order1 sample_corpus) =
     [(''Northern'', 100, ''Critical''), (''Greater Accra'', 0, ''Adequate'')]"
  by (simp add: deserts_summary corpus_aggregate raw_score_def)

theorem desert_analysis_witness:
  "map (\<lambda>d. (rep_region d, rep_desert_score d, rep_severity d)) (get_medical_deserts sample_order1 sample_corpus) =
     [(''Northern'', 100, ''Critical''), (''Greater Accra'', 0, ''Adequate'')] \<and>
   map (\<lambda>d. (rep_region d, rep_desert_score d, rep_severity d)) (get_medical_deserts sample_order2 sample_corpus) =
     [(''Northern'', 100, ''Critical''), (''Greater Accra'', 0, ''Adequate'')]"
proof -
  from desert_analysis_deterministic_bounded [of sample_order1 sample_corpus sample_order2]
  have "map (\<lambda>d. (rep_region d, rep_desert_score d, rep_severity d)) (get_medical_deserts sample_order1 sample_corpus) =
        map (\<lambda>d. (rep_region d, rep_desert_score d, rep_severity d)) (get_medical_deserts sample_order2 sample_corpus)"
    by (rule conjunct1)
  with corpus_report show ?thesis by simp
qed

theorem region_without_surgery_witness:
  "test_clinic \<in> set (take 5000 sample_corpus) \<and>
   ''Surgery'' \<notin> set (get_or (fac_services test_clinic) []) \<and>
   map_of (aggregate (take 5000 sample_corpus)) ''Northern'' =
     Some \<lparr>region = ''Northern'', facilities = [''Test Clinic''], total_beds = 10,
          total_staff = 0, specialties = {},
          has_surgery = False, has_icu = False, has_ct_mri = False, has_blood_bank = False, desert_score = 0\<rparr> \<and>
   raw_score \<lparr>region = ''Northern'', facilities = [''Test Clinic''], total_beds = 10,
          total_staff = 0, specialties = {},
          has_surgery = False, has_icu = False, has_ct_mri = False, has_blood_bank = False, desert_score = 0\<rparr> = 110 \<and>
   raw_score \<lparr>region = ''Northern'', facilities = [''Test Clinic''], total_beds = 10,
          total_staff = 0, specialties = {},
          has_surgery = True, has_icu = False, has_ct_mri = False, has_blood_bank = False, desert_score = 0\<rparr> = 90"
proof -
  let ?northern = "\<lparr>region = ''Northern'', facilities = [''Test Clinic''], total_beds = 10,
          total_staff = 0, specialties = {},
          has_surgery = False, has_icu = False, has_ct_mri = False, has_blood_bank = False, desert_score = 0\<rparr>"
  have mem: "test_clinic \<in> set (take 5000 sample_corpus)"
    by (simp add: sample_corpus_def)
  have reg: "\<forall>f \<in> set (take 5000 sample_corpus). fac_region f = fac_region test_clinic \<longrightarrow>
           ''Surgery'' \<notin> set (get_or (fac_services f) [])"
    by (simp add: sample_corpus_def korle_bu_def test_clinic_def get_or_def)
  have look: "map_of (aggregate (take 5000 sample_corpus)) ''Northern'' = Some ?northern"
    by (simp add: corpus_aggregate)
  from region_without_surgery [OF mem reg, of sample_order1] obtain data where
    d: "map_of (aggregate (take 5000 sample_corpus)) (fac_region test_clinic) = Some data" and
    plus: "raw_score data = raw_score (data\<lparr>has_surgery := True\<rparr>) + 20"
    by blast
  from d look have "data = ?northern" by (simp add: test_clinic_def)
  with plus have "raw_score ?northern = raw_score (?northern\<lparr>has_surgery := True\<rparr>) + 20" by simp
  moreover have "raw_score ?northern = 110" by (simp add: raw_score_def)
  ultimately show ?thesis using mem look by (simp add: test_clinic_def get_or_def)
qed

section \<open>Properties of the chat endpoint\<close>

text \<open>
  When the retrieval returns, the endpoint returns a response and appends exactly one
  turn; the lemma names every part of both that the theorems below speak of.
\<close>

lemma chat_endpoint_result:
  assumes "search_similar (query_encoder w) (retrieval_state st) (req_message req) 5 = Inr rs"
  shows "\<exists>resp turn m'.
     chat_endpoint w env st req =
       (Inr resp, st\<lparr>db_chat_history := db_chat_history st @ [turn], mlflow_state := m'\<rparr>) \<and>
     resp_session_id resp = effective_session_id env req \<and>
     resp_citations resp = map cite rs \<and>
     length (resp_reasoning_steps resp) = 5 \<and>
     resp_reasoning_steps resp ! 1 = memory_step (load_history w st (effective_session_id env req)) \<and>
     resp_response resp =
       (case llm_send env (''rag_'' @ effective_session_id env req @ ''_'' @ take 6 (uuid_llm env))
               (system_prompt
                  (py_join (nl @ nl @ ''---'' @ nl @ nl) (map context_part (enumerate 0 rs)))
                  (''Total: '' @ str_nat (length (take 5000 (db_facilities st))) @ '' facilities across '' @
                   str_nat (card (set (map fac_region (take 5000 (db_facilities st))))) @ '' regions.'')
                  (memory_section (concat (map turn_text (load_history w st (effective_session_id env req))))))
               (req_message req) of
          Inr response_text \<Rightarrow> response_text
        | Inl e \<Rightarrow> fallback_text e (length rs)) \<and>
     doc_session_id turn = effective_session_id env req \<and>
     doc_message turn = req_message req \<and>
     doc_response turn = resp_response resp \<and>
     doc_created_at turn = now env"
  using assms
  by (auto simp: chat_endpoint_def Let_def generate_def split: prod.splits sum.splits)


text \<open>
  C5. For every chat request whose retrieval returns: if the call to the generation
  client raises (whatever label and prompt it is called with), the endpoint raises
  nothing and returns a response whose text is the fallback message, which reports the
  length of the semantic-search result list.
\<close>

theorem chat_generation_failure_fallback:
  assumes "search_similar (query_encoder w) (retrieval_state st) (req_message req) 5 = Inr search_results"
    and "\<And>label prompt. llm_send env label prompt (req_message req) = Inl e"
  shows "\<exists>resp st'. chat_endpoint w env st req = (Inr resp, st') \<and>
           resp_response resp =
             ''Error processing query: '' @ exc_str e @ ''. Found '' @
             str_nat (length search_results) @ '' relevant records.''"
proof -
  from chat_endpoint_result [OF assms(1), where env = env]
  obtain resp turn m' where
    r: "chat_endpoint w env st req =
       (Inr resp, st\<lparr>db_chat_history := db_chat_history st @ [turn], mlflow_state := m'\<rparr>)"
    and t: "resp_response resp =
       (case llm_send env (''rag_'' @ effective_session_id env req @ ''_'' @ take 6 (uuid_llm env))
               (system_prompt
                  (py_join (nl @ nl @ ''---'' @ nl @ nl) (map context_part (enumerate 0 search_results)))
                  (''Total: '' @ str_nat (length (take 5000 (db_facilities st))) @ '' facilities across '' @
                   str_nat (card (set (map fac_region (take 5000 (db_facilities st))))) @ '' regions.'')
                  (memory_section (concat (map turn_text (load_history w st (effective_session_id env req))))))
               (req_message req) of
          Inr response_text \<Rightarrow> response_text
        | Inl e \<Rightarrow> fallback_text e (length search_results))"
    by blast
  from t have "resp_response resp = fallback_text e (length search_results)"
    by (simp add: assms(2))
  with r show ?thesis by (simp add: fallback_text_def)
qed

text \<open>
  C6. The outcome of a chat request does not depend on the experiment logger: for any
  two behaviours of the logger and any two of its states, everything else being equal,
  either both runs end with the same exception of the retrieval, or both return, with
  the same generated text, citations, reasoning steps and session id. In particular a
  logger that raises at some or all calls gives the response of one that never raises.
\<close>

theorem chat_logging_failures_swallowed:
  "map_sum (\<lambda>e. e) (\<lambda>r. (resp_response r, resp_citations r, resp_reasoning_steps r, resp_session_id r))
     (fst (chat_endpoint (w\<lparr>mlflow := ml1\<rparr>) env (st\<lparr>mlflow_state := m1\<rparr>) req)) =
   map_sum (\<lambda>e. e) (\<lambda>r. (resp_response r, resp_citations r, resp_reasoning_steps r, resp_session_id r))
     (fst (chat_endpoint (w\<lparr>mlflow := ml2\<rparr>) env (st\<lparr>mlflow_state := m2\<rparr>) req))"
  by (auto simp: chat_endpoint_def Let_def generate_def load_history_def split: prod.splits sum.splits)

lemma newest_first_window:
  fixes S :: "chat_doc list"
  assumes "sorted (rev (map doc_created_at S))"
  shows "sorted (map doc_created_at (rev (take n S)))"
    and "\<forall>old \<in> set (drop n S). \<forall>d \<in> set (take n S). doc_created_at old \<le> doc_created_at d"
proof -
  have "sorted (rev (map doc_created_at (take n S @ drop n S)))"
    using assms by simp
  then have s: "sorted (rev (map doc_created_at (drop n S)) @ rev (map doc_created_at (take n S)))"
    by (simp only: map_append rev_append)
  then show "sorted (map doc_created_at (rev (take n S)))"
    by (simp add: sorted_append rev_map)
  from s show "\<forall>old \<in> set (drop n S). \<forall>d \<in> set (take n S). doc_created_at old \<le> doc_created_at d"
    by (auto simp: sorted_append)
qed

text \<open>
  C3. With the store sorting by \<open>created_at\<close>, the memory retrieval of a session with
  \<open>m\<close> stored turns loads \<open>min m 5\<close> turns, in chronological order; they are turns of the
  session, all of them when \<open>m \<le> 5\<close>, and no turn left out is newer than a loaded one. The
  reasoning step reports no history for \<open>m = 0\<close> and the loaded count otherwise, and it is
  the second reasoning step of every response of the endpoint for that session.
\<close>

theorem memory_retrieval_window:
  assumes "mongo_sort_contract (mongo_sort w)"
  shows "length (load_history w st sid) =
           min (length (filter (\<lambda>d. doc_session_id d = sid) (db_chat_history st))) 5 \<and>
         sorted (map doc_created_at (load_history w st sid)) \<and>
         mset (load_history w st sid) \<subseteq># mset (filter (\<lambda>d. doc_session_id d = sid) (db_chat_history st)) \<and>
         (length (filter (\<lambda>d. doc_session_id d = sid) (db_chat_history st)) \<le> 5 \<longrightarrow>
            mset (load_history w st sid) = mset (filter (\<lambda>d. doc_session_id d = sid) (db_chat_history st))) \<and>
         (\<forall>old \<in># mset (filter (\<lambda>d. doc_session_id d = sid) (db_chat_history st)) - mset (load_history w st sid).
            \<forall>d \<in> set (load_history w st sid). doc_created_at old \<le> doc_created_at d) \<and>
         memory_step (load_history w st sid) =
           (if filter (\<lambda>d. doc_session_id d = sid) (db_chat_history st) = [] then
              \<lparr>rs_step = 2, rs_action = ''Memory Retrieval'',
               rs_detail = ''No previous conversation history (new session)'',
               rs_data_used = DataStr ''None''\<rparr>
            else
              \<lparr>rs_step = 2, rs_action = ''Memory Retrieval'',
               rs_detail = ''Loaded '' @
                 str_nat (min (length (filter (\<lambda>d. doc_session_id d = sid) (db_chat_history st))) 5) @
                 '' previous conversation turns for context'',
               rs_data_used = DataStr
                 (str_nat (min (length (filter (\<lambda>d. doc_session_id d = sid) (db_chat_history st))) 5) @
                  '' chat history messages'')\<rparr>) \<and>
         (\<forall>env req resp st'.
            chat_endpoint w env st req = (Inr resp, st') \<and> effective_session_id env req = sid \<longrightarrow>
            resp_reasoning_steps resp ! 1 = memory_step (load_history w st sid))"
proof -
  let ?session = "filter (\<lambda>d. doc_session_id d = sid) (db_chat_history st)"
  let ?S = "mongo_sort w (- 1) ?session"
  let ?h = "load_history w st sid"
  from assms have perm: "mset ?S = mset ?session" and desc: "sorted (rev (map doc_created_at ?S))"
    by (simp_all add: mongo_sort_contract_def)
  have h: "?h = rev (take 5 ?S)" by (simp add: load_history_def)
  from perm have len: "length ?S = length ?session" by (rule mset_eq_length)
  have l: "length ?h = min (length ?session) 5" by (simp add: h len)
  have s: "sorted (map doc_created_at ?h)"
    using newest_first_window(1) [OF desc] by (simp only: h)
  have split: "mset ?session = mset (take 5 ?S) + mset (drop 5 ?S)"
    by (simp only: perm [symmetric] union_code append_take_drop_id)
  have mh: "mset ?h = mset (take 5 ?S)" by (simp add: h)
  have sub: "mset ?h \<subseteq># mset ?session" by (simp only: mh split mset_subset_eq_add_left)
  have all: "length ?session \<le> 5 \<longrightarrow> mset ?h = mset ?session"
    using len perm by (simp add: mh)
  have rest: "mset ?session - mset ?h = mset (drop 5 ?S)" by (simp only: mh split add_diff_cancel_left')
  have recent: "\<forall>old \<in># mset ?session - mset ?h. \<forall>d \<in> set ?h. doc_created_at old \<le> doc_created_at d"
    unfolding rest unfolding h using newest_first_window(2) [OF desc, of 5] by simp
  have empty: "?h = [] \<longleftrightarrow> ?session = []"
    using l by (metis length_0_conv min_0L min.commute zero_neq_numeral min_def)
  have step: "memory_step ?h =
           (if ?session = [] then
              \<lparr>rs_step = 2, rs_action = ''Memory Retrieval'',
               rs_detail = ''No previous conversation history (new session)'',
               rs_data_used = DataStr ''None''\<rparr>
            else
              \<lparr>rs_step = 2, rs_action = ''Memory Retrieval'',
               rs_detail = ''Loaded '' @ str_nat (min (length ?session) 5) @
                 '' previous conversation turns for context'',
               rs_data_used = DataStr (str_nat (min (length ?session) 5) @ '' chat history messages'')\<rparr>)"
    unfolding memory_step_def empty l by (cases "?session = []") simp_all
  have resp: "\<forall>env req resp st'.
            chat_endpoint w env st req = (Inr resp, st') \<and> effective_session_id env req = sid \<longrightarrow>
            resp_reasoning_steps resp ! 1 = memory_step ?h"
    by (auto simp: chat_endpoint_def Let_def split: prod.splits sum.splits)
  from l s sub all recent step resp show ?thesis by blast
qed

lemma sorted_single:
  assumes "mongo_sort_contract srt"
  shows "srt 1 [x] = [x]" and "srt (- 1) [x] = [x]"
proof -
  from assms have "mset (srt 1 [x]) = mset [x]" and "mset (srt (- 1) [x]) = mset [x]"
    unfolding mongo_sort_contract_def by blast+
  then show "srt 1 [x] = [x]" and "srt (- 1) [x] = [x]" by simp_all
qed

lemma mset_pair_cases:
  assumes "mset xs = {#a, b#}"
  shows "xs = [a, b] \<or> xs = [b, a]"
proof -
  from assms have "length xs = 2"
    using mset_eq_length [of xs "[a, b]"] by simp
  then obtain p q where xs: "xs = [p, q]"
    by (cases xs; cases "tl xs") auto
  with assms show ?thesis
    by (auto simp: add_eq_conv_diff)
qed

lemma sorted_pair:
  assumes "mongo_sort_contract srt" "doc_created_at a < doc_created_at b"
  shows "srt 1 [a, b] = [a, b]"
proof -
  from assms(1) have "mset (srt 1 [a, b]) = mset [a, b]"
    and s: "sorted (map doc_created_at (srt 1 [a, b]))"
    unfolding mongo_sort_contract_def by blast+
  then have m: "mset (srt 1 [a, b]) = {#a, b#}" by simp
  from mset_pair_cases [OF m] s assms(2) show ?thesis by auto
qed

lemma str_nat_1: "str_nat (Suc 0) = ''1''"
  by (simp add: str_nat.simps digit_def)

text \<open>
  C8. Two chat requests with the same non-empty session id, the first to a store with no
  turn of that session, the clock advancing between them, the retrieval returning for
  both, whatever the generation client does: each request returns and appends exactly
  one turn, the second response reports one loaded turn, and the history of the session
  is the two turns, first request first.
\<close>

theorem two_turns_same_session:
  assumes contract: "mongo_sort_contract (mongo_sort w)"
    and sid: "sid \<noteq> []" "req_session_id req1 = Some sid" "req_session_id req2 = Some sid"
    and fresh: "filter (\<lambda>d. doc_session_id d = sid) (db_chat_history st0) = []"
    and clock: "now env1 < now env2"
    and s1: "search_similar (query_encoder w) (retrieval_state st0) (req_message req1) 5 = Inr rs1"
    and s2: "search_similar (query_encoder w) (retrieval_state st0) (req_message req2) 5 = Inr rs2"
  shows "\<exists>resp1 st1 resp2 st2 turn1 turn2.
     chat_endpoint w env1 st0 req1 = (Inr resp1, st1) \<and>
     chat_endpoint w env2 st1 req2 = (Inr resp2, st2) \<and>
     db_chat_history st1 = db_chat_history st0 @ [turn1] \<and>
     db_chat_history st2 = db_chat_history st1 @ [turn2] \<and>
     resp_session_id resp1 = sid \<and> resp_session_id resp2 = sid \<and>
     resp_reasoning_steps resp2 ! 1 =
       \<lparr>rs_step = 2, rs_action = ''Memory Retrieval'',
        rs_detail = ''Loaded 1 previous conversation turns for context'',
        rs_data_used = DataStr ''1 chat history messages''\<rparr> \<and>
     get_chat_history w st2 sid = [turn1, turn2] \<and>
     doc_message turn1 = req_message req1 \<and> doc_response turn1 = resp_response resp1 \<and>
     doc_message turn2 = req_message req2 \<and> doc_response turn2 = resp_response resp2"
proof -
  have e1: "effective_session_id env1 req1 = sid" and e2: "effective_session_id env2 req2 = sid"
    using sid by (simp_all add: effective_session_id_def)
  from chat_endpoint_result [OF s1, where env = env1] obtain resp1 turn1 m1 where
    r1: "chat_endpoint w env1 st0 req1 =
       (Inr resp1, st0\<lparr>db_chat_history := db_chat_history st0 @ [turn1], mlflow_state := m1\<rparr>)"
    and i1: "resp_session_id resp1 = sid"
    and t1: "doc_session_id turn1 = sid" "doc_message turn1 = req_message req1"
      "doc_response turn1 = resp_response resp1" "doc_created_at turn1 = now env1"
    unfolding e1 by blast
  let ?st1 = "st0\<lparr>db_chat_history := db_chat_history st0 @ [turn1], mlflow_state := m1\<rparr>"
  have s2': "search_similar (query_encoder w) (retrieval_state ?st1) (req_message req2) 5 = Inr rs2"
    using s2 by simp
  from chat_endpoint_result [OF s2', where env = env2] obtain resp2 turn2 m2 where
    r2: "chat_endpoint w env2 ?st1 req2 =
       (Inr resp2, ?st1\<lparr>db_chat_history := db_chat_history ?st1 @ [turn2], mlflow_state := m2\<rparr>)"
    and i2: "resp_session_id resp2 = sid"
    and step: "resp_reasoning_steps resp2 ! 1 = memory_step (load_history w ?st1 sid)"
    and t2: "doc_session_id turn2 = sid" "doc_message turn2 = req_message req2"
      "doc_response turn2 = resp_response resp2" "doc_created_at turn2 = now env2"
    unfolding e2 by blast
  let ?st2 = "?st1\<lparr>db_chat_history := db_chat_history ?st1 @ [turn2], mlflow_state := m2\<rparr>"
  have h: "load_history w ?st1 sid = [turn1]"
    using fresh t1(1) sorted_single(2) [OF contract] by (simp add: load_history_def)
  have step': "resp_reasoning_steps resp2 ! 1 =
       \<lparr>rs_step = 2, rs_action = ''Memory Retrieval'',
        rs_detail = ''Loaded 1 previous conversation turns for context'',
        rs_data_used = DataStr ''1 chat history messages''\<rparr>"
    unfolding step h by (simp add: memory_step_def str_nat_1)
  have lt: "doc_created_at turn1 < doc_created_at turn2"
    using clock t1(4) t2(4) by simp
  have g: "get_chat_history w ?st2 sid = [turn1, turn2]"
    using fresh t1(1) t2(1) sorted_pair [OF contract lt] by (simp add: get_chat_history_def)
  have d1: "db_chat_history ?st1 = db_chat_history st0 @ [turn1]" by simp
  have d2: "db_chat_history ?st2 = db_chat_history ?st1 @ [turn2]" by simp
  from r1 r2 d1 d2 i1 i2 step' g t1(2,3) t2(2,3) show ?thesis by blast
qed

subsection \<open>The scenarios at the sample inputs\<close>

lemma sample_sort_contract: "mongo_sort_contract sample_sort"
  by (simp add: mongo_sort_contract_def sample_sort_def rev_map [symmetric])

lemma busy_history:
  "map doc_created_at (load_history sample_world sample_busy_server ''s1'') = [30, 40, 50, 60, 70]"
  by (simp add: load_history_def sample_world_def sample_busy_server_def sample_server_def
      sample_sort_def sample_turn_def)

lemma sample_search1:
  "search_similar (query_encoder sample_world) (retrieval_state sample_server) (req_message sample_request1) 5 = Inr []"
  by (simp add: search_similar_def sample_server_def initial_retrieval_def)

lemma sample_search2:
  "search_similar (query_encoder sample_world) (retrieval_state sample_server) (req_message sample_request2) 5 = Inr []"
  by (simp add: search_similar_def sample_server_def initial_retrieval_def)

theorem chat_generation_failure_fallback_witness:
  "search_similar (query_encoder sample_world) (retrieval_state sample_server) (req_message sample_request1) 5 = Inr [] \<and>
   (\<forall>label prompt. llm_send sample_env1 label prompt (req_message sample_request1) = Inl (ProviderError ''budget exceeded'')) \<and>
   (\<exists>resp st'. chat_endpoint sample_world sample_env1 sample_server sample_request1 = (Inr resp, st') \<and>
      resp_response resp = ''Error processing query: budget exceeded. Found 0 relevant records.'')"
proof -
  have b: "\<And>label prompt. llm_send sample_env1 label prompt (req_message sample_request1) =
      Inl (ProviderError ''budget exceeded'')"
    by (simp add: sample_env1_def)
  from chat_generation_failure_fallback [OF sample_search1 b] show ?thesis
    using sample_search1 b by (simp add: str_nat.simps digit_def)
qed

theorem memory_retrieval_window_witness:
  "mongo_sort_contract (mongo_sort sample_world) \<and>
   length (filter (\<lambda>d. doc_session_id d = ''s1'') (db_chat_history sample_busy_server)) = 7 \<and>
   length (load_history sample_world sample_busy_server ''s1'') = 5 \<and>
   map doc_created_at (load_history sample_world sample_busy_server ''s1'') = [30, 40, 50, 60, 70]"
proof -
  have c: "mongo_sort_contract (mongo_sort sample_world)"
    using sample_sort_contract by (simp add: sample_world_def)
  have n: "length (filter (\<lambda>d. doc_session_id d = ''s1'') (db_chat_history sample_busy_server)) = 7"
    by (simp add: sample_busy_server_def sample_server_def sample_turn_def)
  from memory_retrieval_window [OF c, of sample_busy_server "''s1''"]
  have "length (load_history sample_world sample_busy_server ''s1'') =
        min (length (filter (\<lambda>d. doc_session_id d = ''s1'') (db_chat_history sample_busy_server))) 5"
    by (rule conjunct1)
  with n have "length (load_history sample_world sample_busy_server ''s1'') = 5" by simp
  with c n busy_history show ?thesis by simp
qed

theorem two_turns_same_session_witness:
  "mongo_sort_contract (mongo_sort sample_world) \<and>
   ''test_multi_turn_session'' \<noteq> [] \<and>
   req_session_id sample_request1 = Some ''test_multi_turn_session'' \<and>
   req_session_id sample_request2 = Some ''test_multi_turn_session'' \<and>
   filter (\<lambda>d. doc_session_id d = ''test_multi_turn_session'') (db_chat_history sample_server) = [] \<and>
   now sample_env1 < now sample_env2 \<and>
   (\<exists>resp1 st1 resp2 st2.
      chat_endpoint sample_world sample_env1 sample_server sample_request1 = (Inr resp1, st1) \<and>
      chat_endpoint sample_world sample_env2 st1 sample_request2 = (Inr resp2, st2) \<and>
      resp_reasoning_steps resp2 ! 1 =
        \<lparr>rs_step = 2, rs_action = ''Memory Retrieval'',
         rs_detail = ''Loaded 1 previous conversation turns for context'',
         rs_data_used = DataStr ''1 chat history messages''\<rparr> \<and>
      map doc_message (get_chat_history sample_world st2 ''test_multi_turn_session'') =
        [''What hospitals are in Northern region?'', ''How many beds do they have in total?''])"
proof -
  have c: "mongo_sort_contract (mongo_sort sample_world)"
    using sample_sort_contract by (simp add: sample_world_def)
  have s: "''test_multi_turn_session'' \<noteq> []" by simp
  have q1: "req_session_id sample_request1 = Some ''test_multi_turn_session''"
    by (simp add: sample_request1_def)
  have q2: "req_session_id sample_request2 = Some ''test_multi_turn_session''"
    by (simp add: sample_request2_def)
  have f: "filter (\<lambda>d. doc_session_id d = ''test_multi_turn_session'') (db_chat_history sample_server) = []"
    by (simp add: sample_server_def)
  have t: "now sample_env1 < now sample_env2"
    by (simp add: sample_env1_def sample_env2_def)
  from two_turns_same_session [OF c s q1 q2 f t sample_search1 sample_search2]
  obtain resp1 st1 resp2 st2 turn1 turn2 where
    "chat_endpoint sample_world sample_env1 sample_server sample_request1 = (Inr resp1, st1)"
    "chat_endpoint sample_world sample_env2 st1 sample_request2 = (Inr resp2, st2)"
    "resp_reasoning_steps resp2 ! 1 =
        \<lparr>rs_step = 2, rs_action = ''Memory Retrieval'',
         rs_detail = ''Loaded 1 previous conversation turns for context'',
         rs_data_used = DataStr ''1 chat history messages''\<rparr>"
    "get_chat_history sample_world st2 ''test_multi_turn_session'' = [turn1, turn2]"
    "doc_message turn1 = req_message sample_request1"
    "doc_message turn2 = req_message sample_request2"
    by blast
  then have "\<exists>resp1 st1 resp2 st2.
      chat_endpoint sample_world sample_env1 sample_server sample_request1 = (Inr resp1, st1) \<and>
      chat_endpoint sample_world sample_env2 st1 sample_request2 = (Inr resp2, st2) \<and>
      resp_reasoning_steps resp2 ! 1 =
        \<lparr>rs_step = 2, rs_action = ''Memory Retrieval'',
         rs_detail = ''Loaded 1 previous conversation turns for context'',
         rs_data_used = DataStr ''1 chat history messages''\<rparr> \<and>
      map doc_message (get_chat_history sample_world st2 ''test_multi_turn_session'') =
        [''What hospitals are in Northern region?'', ''How many beds do they have in total?'']"
    by (auto simp: sample_request1_def sample_request2_def)
  with c s q1 q2 f t show ?thesis by blast
qed

section \<open>Properties of the natural-language query endpoint\<close>

lemma and_then_Inr:
  "and_then r f = Inr y \<longleftrightarrow> (\<exists>x. r = Inr x \<and> f x = Inr y)"
  by (cases r) (simp_all add: and_then_def)

lemma to_list_rows:
  assumes "py_min_50 limit0 = Inr row_limit" and "to_list w cursor row_limit = Inr rows"
  shows "\<exists>docs. cursor_fetch w cursor = Inr docs \<and> rows = take (effective_limit limit0) docs"
  using assms
  by (cases limit0) (auto simp: to_list_def and_then_Inr min_def split: if_splits json.splits)

lemma run_query_rows:
  assumes "run_query w query_spec = Inr (mongo_filter, rows, explanation)"
  shows "\<exists>kvs cursor docs. query_spec = JObj kvs \<and> cursor_fetch w cursor = Inr docs \<and>
           rows = take (effective_limit (case map_of kvs ''limit'' of None \<Rightarrow> JInt 20 | Some v \<Rightarrow> v)) docs"
proof -
  from assms obtain limit0 row_limit cursor where
    g: "spec_get query_spec ''limit'' (JInt 20) = Inr limit0" and
    m: "py_min_50 limit0 = Inr row_limit" and
    t: "to_list w cursor row_limit = Inr rows"
    unfolding run_query_def and_then_Inr by auto
  from g obtain kvs where k: "query_spec = JObj kvs"
    and l: "limit0 = (case map_of kvs ''limit'' of None \<Rightarrow> JInt 20 | Some v \<Rightarrow> v)"
    by (auto simp: spec_get_def split: json.splits)
  from to_list_rows [OF m t] k l show ?thesis by blast
qed

lemma effective_limit_le: "effective_limit v \<le> 50"
  by (cases v) simp_all

text \<open>
  C10. Whenever the endpoint returns a response, \<open>result_count\<close> is the length of
  \<open>results\<close> and both are at most 50, whatever limit the generation step asked for: the
  specification is a dict, and the rows are the first \<open>min(limit, 50)\<close> documents of a
  cursor, 20 when the specification has no limit.
\<close>

theorem text2sql_row_limit:
  assumes "text2sql_endpoint w env m query = (Inr resp, m')"
  shows "t2s_result_count resp = length (t2s_results resp) \<and>
         length (t2s_results resp) \<le> 50 \<and>
         (\<exists>kvs cursor docs.
            text_to_mongo_query w env query = Inr (JObj kvs) \<and>
            cursor_fetch w cursor = Inr docs \<and>
            t2s_results resp =
              take (effective_limit (case map_of kvs ''limit'' of None \<Rightarrow> JInt 20 | Some v \<Rightarrow> v)) docs)"
proof -
  from assms obtain mongo_filter rows explanation where
    r: "and_then (text_to_mongo_query w env query) (run_query w) = Inr (mongo_filter, rows, explanation)"
    and resp: "t2s_results resp = rows" "t2s_result_count resp = length rows"
    by (auto simp: text2sql_endpoint_def Let_def split: sum.splits prod.splits option.splits)
  from r obtain query_spec where
    q: "text_to_mongo_query w env query = Inr query_spec" and
    rq: "run_query w query_spec = Inr (mongo_filter, rows, explanation)"
    unfolding and_then_Inr by blast
  from run_query_rows [OF rq] obtain kvs cursor docs where
    k: "query_spec = JObj kvs" and f: "cursor_fetch w cursor = Inr docs" and
    rows: "rows = take (effective_limit (case map_of kvs ''limit'' of None \<Rightarrow> JInt 20 | Some v \<Rightarrow> v)) docs"
    by blast
  have "length rows \<le> 50"
    using effective_limit_le [of "case map_of kvs ''limit'' of None \<Rightarrow> JInt 20 | Some v \<Rightarrow> v"]
    by (simp add: rows)
  with resp q k f rows show ?thesis by auto
qed

text \<open>
  C7, as amended. If the answer of the generation step, once its white space and code
  fence are removed, is not valid JSON (\<open>json.loads\<close> raises JSONDecodeError), the
  endpoint raises HTTP 422 with the detail that suggests rephrasing, whatever the
  store would do: no query is run.
\<close>

theorem text2sql_unparsable_reply:
  assumes "\<And>label system_message prompt. q_llm_send env label system_message prompt = Inr reply"
    and "json_loads w (clean_reply reply) = Inl (JSONDecodeError msg)"
  shows "fst (text2sql_endpoint (w\<lparr>coll_find := other_find, cursor_sort := other_sort, cursor_fetch := other_fetch\<rparr>) env m query) =
           Inl (HTTPException 422 ''Failed to parse LLM response into MongoDB query. Try rephrasing.'')"
  using assms
  by (simp add: text2sql_endpoint_def Let_def text_to_mongo_query_def and_then_def to_http_def)

subsection \<open>The endpoint at the sample answers\<close>

lemma sample_big_limit_run:
  "text2sql_endpoint sample_query_world (sample_query_env reply_big_limit) () ''all hospitals'' =
     (Inr \<lparr>t2s_natural_query = ''all hospitals'', t2s_mongo_query = JObj [],
           t2s_results = replicate 50 (JObj [(''name'', JStr ''Test Clinic'')]),
           t2s_result_count = 50, t2s_explanation = JStr []\<rparr>, ())"
  by (simp add: text2sql_endpoint_def text_to_mongo_query_def run_query_def and_then_def
      spec_get_def to_list_def sample_query_world_def sample_query_env_def sample_json_loads_def
      reply_big_limit_def clean_reply_def py_strip_def is_space_def)

theorem text2sql_row_limit_witness:
  "text2sql_endpoint sample_query_world (sample_query_env reply_big_limit) () ''all hospitals'' =
     (Inr \<lparr>t2s_natural_query = ''all hospitals'', t2s_mongo_query = JObj [],
           t2s_results = replicate 50 (JObj [(''name'', JStr ''Test Clinic'')]),
           t2s_result_count = 50, t2s_explanation = JStr []\<rparr>, ()) \<and>
   json_loads sample_query_world (clean_reply reply_big_limit) = Inr (JObj [(''limit'', JInt 1000)]) \<and>
   length (replicate 50 (JObj [(''name'', JStr ''Test Clinic'')])) \<le> 50"
proof -
  have "json_loads sample_query_world (clean_reply reply_big_limit) = Inr (JObj [(''limit'', JInt 1000)])"
    by (simp add: sample_query_world_def sample_json_loads_def reply_big_limit_def clean_reply_def
        py_strip_def is_space_def)
  with text2sql_row_limit [OF sample_big_limit_run] sample_big_limit_run show ?thesis by simp
qed

text \<open>
  C7, as stated, fails: an answer that is valid JSON but no usable specification (its
  limit is a string) is not answered with 422. \<open>min("ten", 50)\<close> raises TypeError, which
  the second handler turns into HTTP 500.
\<close>

theorem text2sql_unusable_limit_counterexample:
  "fst (text2sql_endpoint sample_query_world (sample_query_env reply_text_limit) () ''all hospitals'') =
     Inl (HTTPException 500
       (''Text2SQL error: '<' not supported between instances of 'int' and 'str'' @ quote))"
  by (simp add: text2sql_endpoint_def text_to_mongo_query_def run_query_def and_then_def
      spec_get_def to_http_def sample_query_world_def sample_query_env_def sample_json_loads_def
      reply_text_limit_def clean_reply_def py_strip_def is_space_def quote_def)

theorem text2sql_unparsable_reply_witness:
  "json_loads sample_query_world (clean_reply reply_prose) =
     Inl (JSONDecodeError ''Expecting value: line 1 column 1 (char 0)'') \<and>
   fst (text2sql_endpoint sample_query_world (sample_query_env reply_prose) () ''all hospitals'') =
     Inl (HTTPException 422 ''Failed to parse LLM response into MongoDB query. Try rephrasing.'')"
proof -
  have a: "\<And>label system_message prompt.
      q_llm_send (sample_query_env reply_prose) label system_message prompt = Inr reply_prose"
    by (simp add: sample_query_env_def)
  have b: "json_loads sample_query_world (clean_reply reply_prose) =
      Inl (JSONDecodeError ''Expecting value: line 1 column 1 (char 0)'')"
    by (simp add: sample_query_world_def sample_json_loads_def reply_prose_def clean_reply_def
        py_strip_def is_space_def)
  have c: "sample_query_world\<lparr>coll_find := coll_find sample_query_world,
      cursor_sort := cursor_sort sample_query_world,
      cursor_fetch := cursor_fetch sample_query_world\<rparr> = sample_query_world"
    by simp
  from text2sql_unparsable_reply [OF a b, where other_find = "coll_find sample_query_world"
      and other_sort = "cursor_sort sample_query_world"
      and other_fetch = "cursor_fetch sample_query_world"
      and m = "()" and query = "''all hospitals''"]
  show ?thesis using b by (simp only: c simp_thms)
qed

end
